theory Spec2Isabelle
  imports Complex_Main "HOL-Library.Char_ord" "HOL-Library.List_Lexorder" "HOL-Library.Multiset"
begin

section \<open>Data model\<close>

text \<open>
  The dashboard of \<^verbatim>\<open>src/app.py\<close> works on pandas data frames. A frame of conversation
  rows is a list of records, one record per row, with the columns the three producers of
  the file write. Conventions of the embedding:
  \<^item> a timestamp is an \<open>int\<close>, the number of nanoseconds since the epoch (the resolution of
    a pandas \<^verbatim>\<open>Timestamp\<close>); \<^verbatim>\<open>NaT\<close> is \<open>None\<close>;
  \<^item> a nullable string column is a \<open>string option\<close>;
  \<^item> a Python string is a \<open>string\<close> whose characters are code points below 256, which
    covers every literal of the file, accented letters included;
  \<^item> \<^verbatim>\<open>a / b\<close> on numbers is exact division in the reals (the rounding of the binary
    floating-point result is not modelled).
\<close>

type_synonym datetime = int

definition minute :: int where
  "minute = 60000000000"

definition hour :: int where
  "hour = 60 * minute"

definition day :: int where
  "day = 24 * hour"

text \<open>The string literals of the source that are not ASCII.\<close>

definition Media :: string where
  "Media = ''M'' @ [CHR 0xE9] @ ''dia''"

definition nao_entendi :: string where
  "nao_entendi = ''n'' @ [CHR 0xE3] @ ''o entendi''"

definition o_que_voce_quis_dizer :: string where
  "o_que_voce_quis_dizer = ''o que voc'' @ [CHR 0xEA] @ '' quis dizer''"

definition nao_sei :: string where
  "nao_sei = ''n'' @ [CHR 0xE3] @ ''o sei''"

text \<open>
  One row of the frame every producer returns. In the frame built from the Postgres rows
  the column \<^verbatim>\<open>completed_at\<close> does not exist (the source comments that it will be \<^verbatim>\<open>NaT\<close> when Postgres has none);
  the record holds \<open>None\<close> there, which is what the dashboard fills the absent column with.
\<close>

record conversation =
  conversation_id :: string
  channel :: string
  uf :: "string option"
  priority :: "string option"
  created_at :: "datetime option"
  completed_at :: "datetime option"
  notification_sent_at :: "datetime option"
  fallback :: bool
  fallback_phrase :: "string option"
  slots_filled :: int
  slots_total :: int
  escalated :: bool
  abandoned :: bool
  intent_final :: string
  protocol :: string

section \<open>Metrics engine: \<^verbatim>\<open>compute_metrics\<close>\<close>

record metrics =
  total_conv :: nat
  fallback_rate :: real
  slot_fill_rate :: real
  avg_completion_min :: "real option"
  escalation_rate :: real
  abandonment_rate :: real
  reports_by_channel :: "(string \<times> nat) list"
  reports_by_uf :: "(string \<times> nat) list"
  pct_high_priority :: real
  avg_notif_delay_min :: "real option"

text \<open>\<^verbatim>\<open>Series.nunique()\<close>: the number of distinct values of a column.\<close>

definition nunique :: "'a list \<Rightarrow> nat" where
  "nunique xs = length (remdups xs)"

text \<open>\<^verbatim>\<open>(b - a).dt.total_seconds() / 60.0\<close>; \<^verbatim>\<open>NaN\<close> when either timestamp is \<^verbatim>\<open>NaT\<close>.\<close>

definition minutes_between :: "datetime option \<Rightarrow> datetime option \<Rightarrow> real option" where
  "minutes_between a b =
     (case (a, b) of
        (Some s, Some e) \<Rightarrow> Some (real_of_int (e - s) / 1000000000 / 60)
      | _ \<Rightarrow> None)"

text \<open>\<^verbatim>\<open>Series.mean()\<close>: the mean of the values that are not \<^verbatim>\<open>NaN\<close>, \<^verbatim>\<open>NaN\<close> if there is none.\<close>

definition mean :: "real option list \<Rightarrow> real option" where
  "mean xs =
     (let ys = [y. Some y \<leftarrow> xs]
      in if ys = [] then None else Some (sum_list ys / real (length ys)))"

text \<open>\<^verbatim>\<open>df.groupby(col).size()\<close>: one count per distinct key, keys in ascending order.\<close>

definition group_sizes :: "string list \<Rightarrow> (string \<times> nat) list" where
  "group_sizes ks = map (\<lambda>k. (k, length (filter (\<lambda>x. x = k) ks))) (sort (remdups ks))"

definition compute_metrics :: "conversation list \<Rightarrow> metrics" where
  "compute_metrics df =
     (let total_conv = nunique (map conversation_id df);
          fallbacks = length (filter (\<lambda>r. fallback r = True) df);
          fallback_rate = (if total_conv = 0 then 0 else real fallbacks / real total_conv);
          completed = filter (\<lambda>r. \<not> abandoned r) df;
          slot_fill_rate =
            (if length completed = 0 then 0
             else (let total_slots = sum_list (map slots_total completed);
                       filled_slots = sum_list (map slots_filled completed)
                   in if total_slots > 0
                      then real_of_int filled_slots / real_of_int total_slots else 0));
          completed_times = filter (\<lambda>r. completed_at r \<noteq> None) completed;
          avg_completion =
            (if length completed_times > 0
             then mean (map (\<lambda>r. minutes_between (created_at r) (completed_at r)) completed_times)
             else None);
          escalation_rate =
            (if total_conv = 0 then 0
             else real (length (filter (\<lambda>r. escalated r = True) df)) / real total_conv);
          abandonment_rate =
            (if total_conv = 0 then 0
             else real (length (filter (\<lambda>r. abandoned r = True) df)) / real total_conv);
          by_channel = group_sizes (map channel df);
          by_uf = group_sizes [u. Some u \<leftarrow> map uf df];
          pct_high_priority =
            (if total_conv = 0 then 0
             else real (length (filter (\<lambda>r. priority r = Some ''Alta'') df)) / real total_conv);
          notif = filter (\<lambda>r. notification_sent_at r \<noteq> None) df;
          avg_notif_delay =
            (if length notif > 0
             then mean (map (\<lambda>r. minutes_between (created_at r) (notification_sent_at r)) notif)
             else None)
      in \<lparr> total_conv = total_conv,
           fallback_rate = fallback_rate,
           slot_fill_rate = slot_fill_rate,
           avg_completion_min = avg_completion,
           escalation_rate = escalation_rate,
           abandonment_rate = abandonment_rate,
           reports_by_channel = by_channel,
           reports_by_uf = by_uf,
           pct_high_priority = pct_high_priority,
           avg_notif_delay_min = avg_notif_delay \<rparr>)"

section \<open>The environment: clock, random generators, date formatting\<close>

text \<open>
  The source reads the clock and draws pseudo-random numbers. Both are inputs of the
  model. A generator is the sequence of raw draws it still has to deliver; each numpy
  primitive takes the next draw and maps it into the range numpy documents for it:
  \<^verbatim>\<open>integers(low, high)\<close> into \<open>low \<le> k < high\<close>, \<^verbatim>\<open>random()\<close> into the 53-bit
  fractions of \<open>[0, 1)\<close>, \<^verbatim>\<open>uniform(low, high)\<close> into \<open>low + (high - low) * random()\<close>.
  The theorems below hold for every sequence of draws.
\<close>

type_synonym rng = "nat \<Rightarrow> nat"

definition next_draw :: "rng \<Rightarrow> nat \<times> rng" where
  "next_draw g = (g 0, \<lambda>i. g (Suc i))"

definition integers :: "int \<Rightarrow> int \<Rightarrow> rng \<Rightarrow> int \<times> rng" where
  "integers low high g = (case next_draw g of (r, g') \<Rightarrow> (low + int r mod (high - low), g'))"

definition random :: "rng \<Rightarrow> real \<times> rng" where
  "random g = (case next_draw g of (r, g') \<Rightarrow> (real (r mod 2 ^ 53) / 2 ^ 53, g'))"

definition uniform :: "real \<Rightarrow> real \<Rightarrow> rng \<Rightarrow> real \<times> rng" where
  "uniform low high g = (case random g of (u, g') \<Rightarrow> (low + (high - low) * u, g'))"

text \<open>\<^verbatim>\<open>choice(xs)\<close>: a uniformly drawn element of a non-empty list.\<close>

definition choice :: "'a list \<Rightarrow> rng \<Rightarrow> 'a \<times> rng" where
  "choice xs g = (case next_draw g of (r, g') \<Rightarrow> (xs ! (r mod length xs), g'))"

text \<open>
  \<^verbatim>\<open>choice(xs, p=ps)\<close>: numpy draws \<open>u\<close> uniformly and returns the element at
  \<^verbatim>\<open>cumsum(ps).searchsorted(u, side='right')\<close>, the number of cumulated
  probabilities that are \<open>\<le> u\<close>. The probabilities of every call in the source add up
  to 1 and \<open>u < 1\<close>, so the position is inside the list.
\<close>

fun cumsum :: "real \<Rightarrow> real list \<Rightarrow> real list" where
  "cumsum acc [] = []"
| "cumsum acc (p # ps) = (acc + p) # cumsum (acc + p) ps"

definition searchsorted_right :: "real list \<Rightarrow> real \<Rightarrow> nat" where
  "searchsorted_right cdf u = length (filter (\<lambda>c. c \<le> u) cdf)"

definition choice_p :: "'a list \<Rightarrow> real list \<Rightarrow> rng \<Rightarrow> 'a \<times> rng" where
  "choice_p xs ps g =
     (case random g of (u, g') \<Rightarrow> (xs ! searchsorted_right (cumsum 0 ps) u, g'))"

text \<open>\<^verbatim>\<open>str(n)\<close> and \<^verbatim>\<open>f"{n:05d}"\<close> for a natural number.\<close>

definition digit_char :: "nat \<Rightarrow> char" where
  "digit_char d = ''0123456789'' ! d"

fun str_nat :: "nat \<Rightarrow> string" where
  "str_nat n = (if n < 10 then [digit_char n] else str_nat (n div 10) @ [digit_char (n mod 10)])"

declare str_nat.simps [simp del]

definition zfill :: "nat \<Rightarrow> string \<Rightarrow> string" where
  "zfill w s = replicate (w - length s) CHR ''0'' @ s"

text \<open>
  \<open>now\<close> is \<^verbatim>\<open>datetime.now()\<close>, \<open>default_rng seed\<close> the stream of
  \<^verbatim>\<open>np.random.default_rng(seed)\<close>, \<open>np_random\<close> the state of numpy's global generator
  and \<open>strftime_ymd\<close> is \<^verbatim>\<open>strftime('%Y%m%d')\<close>; the calendar is not modelled.
\<close>

record env =
  now :: datetime
  default_rng :: "nat \<Rightarrow> rng"
  np_random :: rng
  strftime_ymd :: "datetime \<Rightarrow> string"

section \<open>Synthetic generator: \<^verbatim>\<open>generate_synthetic_data\<close>\<close>

definition channels :: "string list" where
  "channels = [''web'', ''whatsapp'', ''facebook'', ''telegram'']"

definition ufs :: "string list" where
  "ufs = [''sp'', ''rj'', ''mg'', ''rs'', ''ba'']"

definition priorities :: "string list" where
  "priorities = [''Alta'', Media, ''Baixa'']"

definition sample_fallbacks :: "string list" where
  "sample_fallbacks = [nao_entendi, ''poderia repetir'', o_que_voce_quis_dizer, ''erro'', nao_sei]"

text \<open>
  The body of the loop for row \<open>i\<close>, the generator threaded through the draws in the order
  the source makes them. A \<^verbatim>\<open>timedelta\<close> is a number of nanoseconds; the test
  \<^verbatim>\<open>if notification_delay\<close> is false for \<^verbatim>\<open>None\<close> and for a zero delay.
\<close>

definition synthetic_row :: "(datetime \<Rightarrow> string) \<Rightarrow> datetime \<Rightarrow> nat \<Rightarrow> rng \<Rightarrow> conversation \<times> rng" where
  "synthetic_row strftime start i g0 =
     (let (d, g1) = integers 0 90 g0;
          (h, g2) = integers 0 24 g1;
          (m, g3) = integers 0 60 g2;
          created = start + (d * day + h * hour + m * minute);
          (dur, g4) = integers 1 (60 * 48) g3;
          duration = dur * minute;
          completed = created + duration;
          (pr, g5) = choice_p priorities [15 / 100, 35 / 100, 5 / 10] g4;
          (notification_delay, g6) =
            (if pr = ''Alta''
             then (let (u, g) = random g5
                   in if u < 85 / 100
                      then (let (k, g') = integers 1 10 g in (Some (k * minute), g'))
                      else (let (k, g') = integers 11 (60 * 6) g in (Some (k * minute), g')))
             else (None, g5));
          notification_sent =
            (case notification_delay of
               None \<Rightarrow> None
             | Some delay \<Rightarrow> if delay \<noteq> 0 then Some (created + delay) else None);
          slots_total = 6;
          (a, g7) = random g6;
          abandoned = (a < 8 / 100);
          (slots_filled, g8) =
            (if abandoned then integers 0 slots_total g7 else integers 3 (slots_total + 1) g7);
          (f, g9) = random g8;
          fallback = (f < 12 / 100);
          (fallback_phrase, g10) =
            (if fallback then (let (p, g) = choice sample_fallbacks g9 in (Some p, g))
             else (None, g9));
          (escalated, g11) =
            (if pr = ''Alta'' then (let (e, g) = random g10 in (e < 6 / 10, g))
             else (False, g10));
          (channel, g12) = choice channels g11;
          (uf, g13) = choice ufs g12
      in (\<lparr> conversation_id = ''conv_'' @ str_nat i,
            channel = channel,
            uf = Some uf,
            priority = Some pr,
            created_at = Some created,
            completed_at = (if \<not> abandoned then Some completed else None),
            notification_sent_at = notification_sent,
            fallback = fallback,
            fallback_phrase = fallback_phrase,
            slots_filled = slots_filled,
            slots_total = slots_total,
            escalated = escalated,
            abandoned = abandoned,
            intent_final = (if \<not> abandoned then ''create_report'' else ''fallback''),
            protocol = ''SUP-'' @ strftime created @ ''-'' @ zfill 5 (str_nat i) \<rparr>,
          g13))"

text \<open>\<^verbatim>\<open>for i in range(num_rows)\<close>: the rows in order, each from the generator the last left.\<close>

fun synthetic_rows :: "(datetime \<Rightarrow> string) \<Rightarrow> datetime \<Rightarrow> nat list \<Rightarrow> rng \<Rightarrow> conversation list" where
  "synthetic_rows strftime start [] g = []"
| "synthetic_rows strftime start (i # rest) g =
     (case synthetic_row strftime start i g of
        (row, g') \<Rightarrow> row # synthetic_rows strftime start rest g')"

text \<open>\<^verbatim>\<open>range(num_rows)\<close> is empty for a negative \<^verbatim>\<open>num_rows\<close>.\<close>

definition generate_synthetic_data :: "env \<Rightarrow> int \<Rightarrow> conversation list" where
  "generate_synthetic_data e num_rows =
     synthetic_rows (strftime_ymd e) (now e - 90 * day) [0..<nat num_rows] (default_rng e 42)"

section \<open>Raw log frames\<close>

text \<open>
  The frame of raw log entries, \<^verbatim>\<open>pd.json_normalize(docs)\<close>: a list of column names and one
  row per document. A cell of a text column is \<^verbatim>\<open>NaN\<close> (the document has no such key),
  \<^verbatim>\<open>None\<close> (the key holds null) or a string; the \<^verbatim>\<open>timestamp\<close> column holds datetimes or
  \<^verbatim>\<open>NaT\<close>, so that \<^verbatim>\<open>pd.to_datetime\<close> leaves it as it is. A key of a row that is not among
  the columns of the frame is never read.
\<close>

datatype cell = NaN | PyNone | Str string

record log_row =
  timestamp :: "datetime option"
  cells :: "(string \<times> cell) list"

record log_frame =
  columns :: "string list"
  rows :: "log_row list"

datatype error = KeyError string | AttributeError

definition cell_of :: "log_row \<Rightarrow> string \<Rightarrow> cell" where
  "cell_of r c = (case map_of (cells r) c of None \<Rightarrow> NaN | Some v \<Rightarrow> v)"

text \<open>\<^verbatim>\<open>Series.notna()\<close>: neither \<^verbatim>\<open>NaN\<close> nor \<^verbatim>\<open>None\<close>.\<close>

fun notna :: "cell \<Rightarrow> bool" where
  "notna (Str s) = True"
| "notna _ = False"

text \<open>\<^verbatim>\<open>Series.dropna()\<close> of a text column, as the list of its strings.\<close>

fun dropna :: "cell list \<Rightarrow> string list" where
  "dropna [] = []"
| "dropna (Str s # cs) = s # dropna cs"
| "dropna (_ # cs) = dropna cs"

text \<open>\<^verbatim>\<open>Series.astype(str)\<close>.\<close>

fun astype_str :: "cell \<Rightarrow> string" where
  "astype_str NaN = ''nan''"
| "astype_str PyNone = ''None''"
| "astype_str (Str s) = s"

text \<open>\<^verbatim>\<open>df.empty\<close>: an axis of length 0.\<close>

definition empty_frame :: "log_frame \<Rightarrow> bool" where
  "empty_frame df \<longleftrightarrow> rows df = [] \<or> columns df = []"

text \<open>\<^verbatim>\<open>df[c] = values\<close>, one value per row: the column is added if it is new.\<close>

definition set_col :: "log_frame \<Rightarrow> string \<Rightarrow> (log_row \<Rightarrow> cell) \<Rightarrow> log_frame" where
  "set_col df c f =
     \<lparr> columns = (if c \<in> set (columns df) then columns df else columns df @ [c]),
       rows = map (\<lambda>r. r\<lparr>cells := (c, f r) # cells r\<rparr>) (rows df) \<rparr>"

subsection \<open>Text matching\<close>

text \<open>
  Case folding on code points below 256, for \<^verbatim>\<open>str.lower()\<close> and for matching with
  \<^verbatim>\<open>case=False\<close>: the ASCII capitals and the accented capitals \<open>0xC0\<close> to \<open>0xDE\<close> (without
  the multiplication sign \<open>0xD7\<close>) move up by 32. \<open>fold_code\<close> is the code point of the
  folded character.
\<close>

definition fold_code :: "char \<Rightarrow> nat" where
  "fold_code c =
     (let n = (of_char c :: nat)
      in if (65 \<le> n \<and> n \<le> 90) \<or> (192 \<le> n \<and> n \<le> 222 \<and> n \<noteq> 215) then n + 32 else n)"

definition lower :: "string \<Rightarrow> string" where
  "lower s = map (\<lambda>c. char_of (fold_code c)) s"

fun starts_with :: "'a list \<Rightarrow> 'a list \<Rightarrow> bool" where
  "starts_with [] s = True"
| "starts_with (p # ps) [] = False"
| "starts_with (p # ps) (c # cs) = (p = c \<and> starts_with ps cs)"

text \<open>\<open>contains p s\<close>: the literal \<open>p\<close> occurs in \<open>s\<close>.\<close>

fun contains :: "'a list \<Rightarrow> 'a list \<Rightarrow> bool" where
  "contains p [] = (p = [])"
| "contains p (c # cs) = (starts_with p (c # cs) \<or> contains p cs)"

text \<open>The same with letter case ignored: the folded literal occurs in the folded text.\<close>

definition contains_ci :: "string \<Rightarrow> string \<Rightarrow> bool" where
  "contains_ci p s = contains (map fold_code p) (map fold_code s)"

definition concluido_acute :: string where
  "concluido_acute = ''conclu'' @ [CHR 0xED] @ ''do''"

text \<open>
  \<^verbatim>\<open>.astype(str).str.contains(pattern, case=False, na=False)\<close> for the pattern of the
  three alternatives \<^verbatim>\<open>concluido\<close> with an acute i, \<^verbatim>\<open>concluido\<close> and \<^verbatim>\<open>Fluxo\<close>: one of
  them occurs, letter case ignored.
\<close>

definition is_completion :: "cell \<Rightarrow> bool" where
  "is_completion m =
     list_ex (\<lambda>p. contains_ci p (astype_str m)) [concluido_acute, ''concluido'', ''Fluxo'']"

text \<open>\<^verbatim>\<open>.astype(str).str.contains('Fallback detectado', na=False)\<close>.\<close>

definition is_fallback_message :: "cell \<Rightarrow> bool" where
  "is_fallback_message m = contains ''Fallback detectado'' (astype_str m)"

text \<open>\<^verbatim>\<open>.astype(str).str.contains('SendGrid', na=False)\<close>.\<close>

definition is_sendgrid :: "cell \<Rightarrow> bool" where
  "is_sendgrid c = contains ''SendGrid'' (astype_str c)"

section \<open>Session aggregator: \<^verbatim>\<open>transform_logs_to_sessions\<close>\<close>

definition possible_session_cols :: "string list" where
  "possible_session_cols =
     [''dialogflowSessionId'', ''session_id'', ''sessionId'',
      ''context.dialogflowSessionId'', ''context.session_id'', ''protocolo'']"

text \<open>
  The loop over the candidates: the first one that is a column of the frame with a value
  that is not null in some row.
\<close>

definition find_session_col :: "log_frame \<Rightarrow> string option" where
  "find_session_col df =
     find (\<lambda>col. col \<in> set (columns df) \<and> list_ex (\<lambda>r. notna (cell_of r col)) (rows df))
       possible_session_cols"

text \<open>
  \<^verbatim>\<open>df['session_id'] = df[col]\<close> for the candidate found, else
  \<^verbatim>\<open>df['session_id'] = df.index.astype(str)\<close>: the index of the frame is the position of
  the row.
\<close>

definition with_index_session :: "log_frame \<Rightarrow> log_frame" where
  "with_index_session df =
     \<lparr> columns = (if ''session_id'' \<in> set (columns df) then columns df
                  else columns df @ [''session_id'']),
       rows = map (\<lambda>(i, r). r\<lparr>cells := (''session_id'', Str (str_nat i)) # cells r\<rparr>)
                (enumerate 0 (rows df)) \<rparr>"

definition assign_session_id :: "log_frame \<Rightarrow> log_frame" where
  "assign_session_id df =
     (case find_session_col df of
        Some col \<Rightarrow> set_col df ''session_id'' (\<lambda>r. cell_of r col)
      | None \<Rightarrow> with_index_session df)"

text \<open>
  The flat name of a field is filled from the nested one when only the nested one is a
  column: \<^verbatim>\<open>intentName\<close>, \<^verbatim>\<open>queryText\<close>, then \<^verbatim>\<open>protocolo\<close>, \<^verbatim>\<open>prioridade\<close>, \<^verbatim>\<open>uf\<close>,
  \<^verbatim>\<open>channel\<close>.
\<close>

definition from_context :: "string \<Rightarrow> log_frame \<Rightarrow> log_frame" where
  "from_context col df =
     (if col \<notin> set (columns df) \<and> (''context.'' @ col) \<in> set (columns df)
      then set_col df col (\<lambda>r. cell_of r (''context.'' @ col)) else df)"

definition normalize_fields :: "log_frame \<Rightarrow> log_frame" where
  "normalize_fields df =
     fold from_context
       [''intentName'', ''queryText'', ''protocolo'', ''prioridade'', ''uf'', ''channel''] df"

text \<open>
  \<^verbatim>\<open>df.sort_values('timestamp')\<close>: ascending, the rows without a timestamp last in their
  original order. Rows with equal timestamps keep their original order here (a stable
  sort); pandas sorts positions by the keys alone, so for any sorting algorithm two rows
  with the same timestamp that are exchanged in the input are exchanged in the output.
\<close>

definition sort_values :: "log_row list \<Rightarrow> log_row list" where
  "sort_values rs =
     sort_key (\<lambda>r. the (timestamp r)) (filter (\<lambda>r. timestamp r \<noteq> None) rs)
       @ filter (\<lambda>r. timestamp r = None) rs"

text \<open>
  \<^verbatim>\<open>.groupby('session_id')\<close>: one group per distinct key that is not null, keys ascending,
  the rows of a group in the order of the frame.
\<close>

definition groupby_session :: "log_row list \<Rightarrow> (string \<times> log_row list) list" where
  "groupby_session rs =
     map (\<lambda>k. (k, filter (\<lambda>r. cell_of r ''session_id'' = Str k) rs))
       (sort (remdups (dropna (map (\<lambda>r. cell_of r ''session_id'') rs))))"

text \<open>\<^verbatim>\<open>Series.min()\<close> of timestamps: the least that is not \<^verbatim>\<open>NaT\<close>, \<^verbatim>\<open>NaT\<close> if there is none.\<close>

definition min_ts :: "datetime option list \<Rightarrow> datetime option" where
  "min_ts ts = (case [t. Some t \<leftarrow> ts] of [] \<Rightarrow> None | t # rest \<Rightarrow> Some (fold min rest t))"

text \<open>
  \<^verbatim>\<open>grp.get(col).dropna().iloc[0] if col in grp.columns and not grp.get(col).dropna().empty
  else None\<close>.
\<close>

definition first_value :: "string list \<Rightarrow> string \<Rightarrow> log_row list \<Rightarrow> string option" where
  "first_value cols col grp =
     (if col \<in> set cols
      then (case dropna (map (\<lambda>r. cell_of r col) grp) of [] \<Rightarrow> None | v # _ \<Rightarrow> Some v)
      else None)"

fun cell_option :: "cell \<Rightarrow> string option" where
  "cell_option (Str s) = Some s"
| "cell_option _ = None"

text \<open>\<^verbatim>\<open>x or d\<close> for a string or \<^verbatim>\<open>None\<close>: the empty string is false.\<close>

definition or_default :: "string option \<Rightarrow> string \<Rightarrow> string" where
  "or_default x d = (case x of None \<Rightarrow> d | Some s \<Rightarrow> if s = [] then d else s)"

text \<open>
  The body of the loop for one group. \<^verbatim>\<open>grp.get('message', '')\<close> is the string \<^verbatim>\<open>''\<close>
  when the frame has no column \<^verbatim>\<open>message\<close>, and \<^verbatim>\<open>''.astype\<close> raises AttributeError; the
  same holds for \<^verbatim>\<open>component\<close>.
\<close>

definition summarize_session :: "string list \<Rightarrow> string \<Rightarrow> log_row list \<Rightarrow> error + conversation" where
  "summarize_session cols session_id grp =
     (let created = min_ts (map timestamp grp)
      in if ''message'' \<notin> set cols then Inl AttributeError
      else
        (let completed_rows = filter (\<lambda>r. is_completion (cell_of r ''message'')) grp;
             completed = (if completed_rows \<noteq> [] then min_ts (map timestamp completed_rows) else None);
             by_intent = (''intentName'' \<in> set cols \<and>
                list_ex (\<lambda>r. cell_of r ''intentName'' = Str ''Default Fallback Intent'') grp);
             q = filter (\<lambda>r. cell_of r ''intentName'' = Str ''Default Fallback Intent'') grp;
             fallback_flag =
               (by_intent \<or> list_ex (\<lambda>r. is_fallback_message (cell_of r ''message'')) grp);
             phrase =
               (if by_intent \<and> ''queryText'' \<in> set cols
                then cell_option (cell_of (hd q) ''queryText'') else None)
         in if ''component'' \<notin> set cols then Inl AttributeError
         else
           (let notif_rows = filter (\<lambda>r. is_sendgrid (cell_of r ''component'')) grp;
                notification =
                  (if notif_rows \<noteq> [] then min_ts (map timestamp notif_rows) else None);
                prio = first_value cols ''prioridade'' grp;
                uf_value = first_value cols ''uf'' grp;
                chan = first_value cols ''channel'' grp
            in Inr \<lparr> conversation_id = session_id,
                     channel = or_default chan ''web'',
                     uf = Some (case uf_value of None \<Rightarrow> ''sp''
                                | Some u \<Rightarrow> if u = [] then ''sp'' else lower u),
                     priority = Some (or_default prio Media),
                     created_at = created,
                     completed_at = completed,
                     notification_sent_at = notification,
                     fallback = fallback_flag,
                     fallback_phrase = phrase,
                     slots_filled = 6,
                     slots_total = 6,
                     escalated = (notification \<noteq> None),
                     abandoned = (completed = None),
                     intent_final = ''AbrirChamadoSuporte'',
                     protocol = (case first_value cols ''protocolo'' grp of
                                   Some p \<Rightarrow> p | None \<Rightarrow> ''MONGO-'' @ session_id) \<rparr>)))"

text \<open>
  The loop over the groups: a key that is empty or the text \<^verbatim>\<open>None\<close> is skipped, an
  exception ends the loop.
\<close>

fun summarize_groups :: "string list \<Rightarrow> (string \<times> log_row list) list \<Rightarrow> error + conversation list" where
  "summarize_groups cols [] = Inr []"
| "summarize_groups cols ((session_id, grp) # rest) =
     (if session_id = [] \<or> session_id = ''None'' then summarize_groups cols rest
      else (case summarize_session cols session_id grp of
              Inl e \<Rightarrow> Inl e
            | Inr s \<Rightarrow> (case summarize_groups cols rest of
                          Inl e \<Rightarrow> Inl e
                        | Inr ss \<Rightarrow> Inr (s # ss))))"

text \<open>
  The aggregator: the frame is prepared, sorted and grouped, and the groups are
  summarized. \<^verbatim>\<open>df.sort_values('timestamp')\<close> raises KeyError when the frame has no such
  column. The call of \<^verbatim>\<open>debug_mongo_logs\<close> at the start only prints.
\<close>

definition transform_logs_to_sessions :: "log_frame \<Rightarrow> error + conversation list" where
  "transform_logs_to_sessions df_logs =
     (let df = normalize_fields (assign_session_id df_logs)
      in if ''timestamp'' \<notin> set (columns df) then Inl (KeyError ''timestamp'')
         else summarize_groups (columns df) (groupby_session (sort_values (rows df))))"

section \<open>Reconciler: \<^verbatim>\<open>combine_postgres_and_mongo_data\<close>\<close>

text \<open>
  The two readers are the inputs of the model: \<open>pg_data\<close> is what
  \<^verbatim>\<open>load_denuncias_from_postgres\<close> returned (no row when the source is absent or failed) and
  \<open>mongo_logs\<close> what \<^verbatim>\<open>load_mongodb_logs\<close> returned (the empty frame in the same cases).
  A row of \<^verbatim>\<open>denuncias\<close> has the columns of the \<^verbatim>\<open>SELECT\<close>; the record keeps those that
  reach a column of the conversation frame.
\<close>

record denuncia =
  pg_protocolo :: string
  pg_prioridade :: "string option"
  pg_uf :: "string option"
  pg_created_at :: "datetime option"

text \<open>The field mapping and the fixed defaults of the structured path.\<close>

definition base_row :: "denuncia \<Rightarrow> conversation" where
  "base_row d =
     \<lparr> conversation_id = pg_protocolo d,
       channel = ''web'',
       uf = pg_uf d,
       priority = pg_prioridade d,
       created_at = pg_created_at d,
       completed_at = None,
       notification_sent_at = None,
       fallback = False,
       fallback_phrase = None,
       slots_filled = 6,
       slots_total = 6,
       escalated = (pg_prioridade d = Some ''Alta''),
       abandoned = False,
       intent_final = ''AbrirChamadoSuporte'',
       protocol = pg_protocolo d \<rparr>"

subsection \<open>Enrichment from the raw logs\<close>

text \<open>\<^verbatim>\<open>log.get(key)\<close> on a row of the frame: \<^verbatim>\<open>None\<close> when the frame has no such column.\<close>

definition log_get :: "string list \<Rightarrow> log_row \<Rightarrow> string \<Rightarrow> cell" where
  "log_get cols r k = (if k \<in> set cols then cell_of r k else PyNone)"

text \<open>Python truth of a cell: \<^verbatim>\<open>NaN\<close> is true, \<^verbatim>\<open>None\<close> and the empty string are false.\<close>

fun truthy :: "cell \<Rightarrow> bool" where
  "truthy NaN = True"
| "truthy PyNone = False"
| "truthy (Str s) = (s \<noteq> [])"

text \<open>\<^verbatim>\<open>log.get('protocolo') or log.get('context.protocolo')\<close>.\<close>

definition log_protocol :: "string list \<Rightarrow> log_row \<Rightarrow> cell" where
  "log_protocol cols r =
     (if truthy (log_get cols r ''protocolo'') then log_get cols r ''protocolo''
      else log_get cols r ''context.protocolo'')"

text \<open>
  The rows of \<^verbatim>\<open>fallback_logs\<close>; \<^verbatim>\<open>mongo_logs.get('intentName', '') == ...\<close> is \<^verbatim>\<open>False\<close>
  when the frame has no column \<^verbatim>\<open>intentName\<close>.
\<close>

definition fallback_logs :: "log_frame \<Rightarrow> log_row list" where
  "fallback_logs logs =
     filter (\<lambda>r. is_fallback_message (cell_of r ''message'') \<or>
                 (''intentName'' \<in> set (columns logs) \<and>
                  cell_of r ''intentName'' = Str ''Default Fallback Intent''))
       (rows logs)"

definition fallback_protocols :: "log_frame \<Rightarrow> cell list" where
  "fallback_protocols logs =
     filter truthy (map (log_protocol (columns logs)) (fallback_logs logs))"

definition sample_phrases :: "string list" where
  "sample_phrases = [nao_entendi, ''poderia repetir'', ''erro'']"

text \<open>
  The loop that gives each row with \<^verbatim>\<open>fallback\<close> a phrase drawn by
  \<^verbatim>\<open>np.random.choice(sample_phrases)\<close>, in the order of the rows.
\<close>

fun with_phrases :: "conversation list \<Rightarrow> rng \<Rightarrow> conversation list" where
  "with_phrases [] g = []"
| "with_phrases (row # rest) g =
     (if fallback row
      then (case choice sample_phrases g of
              (p, g') \<Rightarrow> row\<lparr>fallback_phrase := Some p\<rparr> # with_phrases rest g')
      else row # with_phrases rest g)"

text \<open>
  The dictionary \<^verbatim>\<open>notification_protocols\<close>: for each protocol the earliest timestamp of
  its SendGrid rows. \<^verbatim>\<open>log.get('timestamp')\<close> is \<^verbatim>\<open>None\<close> when the frame has no such
  column. (Python keeps one key per \<^verbatim>\<open>NaN\<close> object; no such key equals the protocol of
  a Postgres row, so merging them changes no result.)
\<close>

definition note_notification :: "string list \<Rightarrow> log_row \<Rightarrow> (cell \<rightharpoonup> datetime) \<Rightarrow> (cell \<rightharpoonup> datetime)" where
  "note_notification cols entry m =
     (let protocol = log_protocol cols entry;
          ts = (if ''timestamp'' \<in> set cols then timestamp entry else None)
      in case ts of
           None \<Rightarrow> m
         | Some t \<Rightarrow>
             if truthy protocol
             then (case m protocol of
                     None \<Rightarrow> m(protocol \<mapsto> t)
                   | Some t' \<Rightarrow> if t < t' then m(protocol \<mapsto> t) else m)
             else m)"

definition notification_protocols :: "log_frame \<Rightarrow> (cell \<rightharpoonup> datetime)" where
  "notification_protocols logs =
     fold (note_notification (columns logs))
       (filter (\<lambda>r. is_sendgrid (cell_of r ''component'')) (rows logs)) Map.empty"

text \<open>
  The branch \<^verbatim>\<open>if not mongo_logs.empty\<close>. \<^verbatim>\<open>mongo_logs.get('message', '')\<close> and
  \<^verbatim>\<open>mongo_logs.get('component', '')\<close> are the string \<^verbatim>\<open>''\<close> when the column is missing,
  and \<^verbatim>\<open>''.astype\<close> raises AttributeError.
\<close>

definition enrich_from_logs :: "rng \<Rightarrow> denuncia list \<Rightarrow> log_frame \<Rightarrow> error + conversation list" where
  "enrich_from_logs g pg_data logs =
     (if ''message'' \<notin> set (columns logs) then Inl AttributeError
      else
        (let protocols = fallback_protocols logs;
             flagged = map (\<lambda>d. (base_row d)\<lparr>fallback := Str (pg_protocolo d) \<in> set protocols\<rparr>)
                         pg_data;
             phrased = (if protocols \<noteq> [] then with_phrases flagged g else flagged)
         in if ''component'' \<notin> set (columns logs) then Inl AttributeError
            else
              (let sent = notification_protocols logs
               in Inr (map (\<lambda>row. row\<lparr>notification_sent_at := sent (Str (protocol row))\<rparr>)
                         phrased))))"

subsection \<open>Simulated conversation data\<close>

text \<open>
  The branch without logs. \<^verbatim>\<open>np.random.choice([True, False], n, p=[0.1, 0.9])\<close> takes one
  uniform draw per row; \<^verbatim>\<open>np.random.uniform(5, 15, k)\<close> then takes one draw for each row of
  priority \<^verbatim>\<open>"Alta"\<close>, in the order of the rows. \<^verbatim>\<open>pd.to_timedelta(x, unit='minutes')\<close> is
  the whole number of nanoseconds in \<open>x\<close> minutes.
\<close>

fun fallback_flags :: "nat \<Rightarrow> rng \<Rightarrow> bool list \<times> rng" where
  "fallback_flags 0 g = ([], g)"
| "fallback_flags (Suc n) g =
     (case choice_p [True, False] [1 / 10, 9 / 10] g of
        (b, g') \<Rightarrow> (case fallback_flags n g' of (bs, g'') \<Rightarrow> (b # bs, g'')))"

definition to_timedelta_minutes :: "real \<Rightarrow> int" where
  "to_timedelta_minutes x = \<lfloor>x * real_of_int minute\<rfloor>"

fun simulated_notifications :: "denuncia list \<Rightarrow> rng \<Rightarrow> datetime option list" where
  "simulated_notifications [] g = []"
| "simulated_notifications (d # ds) g =
     (if pg_prioridade d = Some ''Alta''
      then (case uniform 5 15 g of
              (x, g') \<Rightarrow>
                map_option (\<lambda>t. t + to_timedelta_minutes x) (pg_created_at d)
                  # simulated_notifications ds g')
      else None # simulated_notifications ds g)"

definition simulate_conversation :: "rng \<Rightarrow> denuncia list \<Rightarrow> conversation list" where
  "simulate_conversation g pg_data =
     (case fallback_flags (length pg_data) g of
        (flags, g') \<Rightarrow>
          map (\<lambda>(d, f, sent). (base_row d)\<lparr>fallback := f, notification_sent_at := sent\<rparr>)
            (zip pg_data (zip flags (simulated_notifications pg_data g'))))"

subsection \<open>The three states\<close>

text \<open>
  The structured rows when there are any, enriched from the logs or with simulated data;
  else the sessions aggregated from the logs when there are any; else 500 synthetic rows.
  The function has no exception handler: an exception of the enrichment or of the
  aggregator is the result of the call. The logs that the source attaches to the frame
  as \<^verbatim>\<open>attrs['mongo_logs']\<close> are an input of the model and not repeated in its result.
\<close>

definition combine_postgres_and_mongo_data :: "env \<Rightarrow> denuncia list \<Rightarrow> log_frame \<Rightarrow> error + conversation list" where
  "combine_postgres_and_mongo_data e pg_data mongo_logs =
     (if pg_data \<noteq> []
      then (if \<not> empty_frame mongo_logs
            then enrich_from_logs (np_random e) pg_data mongo_logs
            else Inr (simulate_conversation (np_random e) pg_data))
      else
        (let synthetic = Inr (generate_synthetic_data e 500)
         in if \<not> empty_frame mongo_logs
            then (case transform_logs_to_sessions mongo_logs of
                    Inl err \<Rightarrow> Inl err
                  | Inr sessions_df \<Rightarrow> if length sessions_df > 0 then Inr sessions_df else synthetic)
            else synthetic))"

section \<open>Properties of the metrics engine\<close>

lemma filter_length_le_nunique:
  assumes "distinct (map f xs)"
  shows "length (filter P xs) \<le> nunique (map f xs)"
proof -
  have "length (filter P xs) \<le> length xs" by simp
  also have "length xs = nunique (map f xs)"
    using assms by (simp add: nunique_def distinct_remdups_id)
  finally show ?thesis .
qed

lemma ratio_in_unit: "m \<le> n \<Longrightarrow> 0 \<le> real m / real n \<and> real m / real n \<le> 1"
  by (cases "n = 0") (simp_all add: divide_le_eq)

text \<open>
  C4. On the empty record set \<^verbatim>\<open>compute_metrics\<close> returns \<^verbatim>\<open>total_conv = 0\<close> and the
  five rate fields (fallback, slot fill, escalation, abandonment, share of high priority)
  all equal to 0; the function returns a metrics record, not an error.
\<close>

theorem C4_empty_record_set:
  "total_conv (compute_metrics []) = 0 \<and>
   fallback_rate (compute_metrics []) = 0 \<and>
   slot_fill_rate (compute_metrics []) = 0 \<and>
   escalation_rate (compute_metrics []) = 0 \<and>
   abandonment_rate (compute_metrics []) = 0 \<and>
   pct_high_priority (compute_metrics []) = 0"
  by (simp add: compute_metrics_def nunique_def)

text \<open>
  C7. \<^verbatim>\<open>slot_fill_rate\<close> is the sum of \<^verbatim>\<open>slots_filled\<close> over the rows that are not
  abandoned divided by the sum of \<^verbatim>\<open>slots_total\<close> over the same rows, and 0 when that
  denominator is zero, which includes the case of no such row. Slot counts are the
  non-negative integers of the data model; the guard of the source is
  \<^verbatim>\<open>total_slots > 0\<close>, which is ``not zero'' for them.
\<close>

theorem C7_slot_fill_rate:
  assumes "\<forall>r \<in> set df. 0 \<le> slots_total r"
  shows "slot_fill_rate (compute_metrics df) =
     (let den = sum_list (map slots_total (filter (\<lambda>r. \<not> abandoned r) df));
          num = sum_list (map slots_filled (filter (\<lambda>r. \<not> abandoned r) df))
      in if den = 0 then 0 else real_of_int num / real_of_int den)"
proof -
  let ?completed = "filter (\<lambda>r. \<not> abandoned r) df"
  have "0 \<le> sum_list (map slots_total ?completed)"
    using assms by (intro sum_list_nonneg) auto
  moreover have "?completed = [] \<Longrightarrow> sum_list (map slots_total ?completed) = 0"
    by simp
  ultimately show ?thesis
    by (auto simp: compute_metrics_def Let_def)
qed

definition c7_rows :: "conversation list" where
  "c7_rows =
     [\<lparr> conversation_id = ''a'', channel = ''web'', uf = None, priority = None,
        created_at = Some 0, completed_at = Some 1, notification_sent_at = None,
        fallback = False, fallback_phrase = None, slots_filled = 3, slots_total = 6,
        escalated = False, abandoned = False, intent_final = ''x'', protocol = ''p'' \<rparr>,
      \<lparr> conversation_id = ''b'', channel = ''web'', uf = None, priority = None,
        created_at = Some 0, completed_at = None, notification_sent_at = None,
        fallback = False, fallback_phrase = None, slots_filled = 1, slots_total = 6,
        escalated = False, abandoned = True, intent_final = ''x'', protocol = ''q'' \<rparr>]"

theorem C7_slot_fill_rate_witness:
  "list_all (\<lambda>r. 0 \<le> slots_total r) c7_rows \<and> slot_fill_rate (compute_metrics c7_rows) = 1 / 2"
  using C7_slot_fill_rate [of c7_rows] by (simp add: c7_rows_def)

definition c10_rows :: "conversation list" where
  "c10_rows =
     [\<lparr> conversation_id = ''c1'', channel = ''web'', uf = None, priority = None,
        created_at = Some 0, completed_at = Some 1, notification_sent_at = None,
        fallback = True, fallback_phrase = None, slots_filled = 6, slots_total = 6,
        escalated = False, abandoned = False, intent_final = ''x'', protocol = ''p'' \<rparr>,
      \<lparr> conversation_id = ''c1'', channel = ''web'', uf = None, priority = None,
        created_at = Some 5, completed_at = Some 9, notification_sent_at = None,
        fallback = True, fallback_phrase = None, slots_filled = 6, slots_total = 6,
        escalated = False, abandoned = False, intent_final = ''x'', protocol = ''p'' \<rparr>]"

text \<open>
  C10. The four proportions divide a count of rows by the number of distinct
  \<^verbatim>\<open>conversation_id\<close> values. Two rows that share one identifier and both have
  \<^verbatim>\<open>fallback = True\<close> give a fallback rate of 2; when the identifiers are unique per
  row, the four rates lie between 0 and 1.
\<close>

theorem C10_rates_over_distinct_ids:
  "fallback_rate (compute_metrics c10_rows) = 2 \<and>
   (let m = compute_metrics df; n = card (set (map conversation_id df))
    in (n \<noteq> 0 \<longrightarrow>
          fallback_rate m = real (length (filter fallback df)) / real n \<and>
          escalation_rate m = real (length (filter escalated df)) / real n \<and>
          abandonment_rate m = real (length (filter abandoned df)) / real n \<and>
          pct_high_priority m = real (length (filter (\<lambda>r. priority r = Some ''Alta'') df)) / real n) \<and>
       (distinct (map conversation_id df) \<longrightarrow>
          0 \<le> fallback_rate m \<and> fallback_rate m \<le> 1 \<and>
          0 \<le> escalation_rate m \<and> escalation_rate m \<le> 1 \<and>
          0 \<le> abandonment_rate m \<and> abandonment_rate m \<le> 1 \<and>
          0 \<le> pct_high_priority m \<and> pct_high_priority m \<le> 1))"
proof -
  have ex: "fallback_rate (compute_metrics c10_rows) = 2"
    by (simp add: compute_metrics_def c10_rows_def nunique_def)
  have n: "card (set (map conversation_id df)) = nunique (map conversation_id df)"
    by (simp add: nunique_def length_remdups_card_conv)
  have quot: "nunique (map conversation_id df) \<noteq> 0 \<Longrightarrow>
      fallback_rate (compute_metrics df) =
        real (length (filter fallback df)) / real (nunique (map conversation_id df)) \<and>
      escalation_rate (compute_metrics df) =
        real (length (filter escalated df)) / real (nunique (map conversation_id df)) \<and>
      abandonment_rate (compute_metrics df) =
        real (length (filter abandoned df)) / real (nunique (map conversation_id df)) \<and>
      pct_high_priority (compute_metrics df) =
        real (length (filter (\<lambda>r. priority r = Some ''Alta'') df))
          / real (nunique (map conversation_id df))"
    by (simp add: compute_metrics_def Let_def)
  have unit: "0 \<le> fallback_rate (compute_metrics df) \<and> fallback_rate (compute_metrics df) \<le> 1 \<and>
      0 \<le> escalation_rate (compute_metrics df) \<and> escalation_rate (compute_metrics df) \<le> 1 \<and>
      0 \<le> abandonment_rate (compute_metrics df) \<and> abandonment_rate (compute_metrics df) \<le> 1 \<and>
      0 \<le> pct_high_priority (compute_metrics df) \<and> pct_high_priority (compute_metrics df) \<le> 1"
    if d: "distinct (map conversation_id df)"
  proof -
    have le: "length (filter P df) \<le> nunique (map conversation_id df)" for P
      using d by (rule filter_length_le_nunique)
    show ?thesis
      using ratio_in_unit [OF le [of fallback]] ratio_in_unit [OF le [of escalated]]
        ratio_in_unit [OF le [of abandoned]]
        ratio_in_unit [OF le [of "\<lambda>r. priority r = Some ''Alta''"]]
      by (simp add: compute_metrics_def Let_def)
  qed
  show ?thesis
    unfolding Let_def n using ex quot unit by blast
qed

theorem C10_rates_over_distinct_ids_witness:
  "card (set (map conversation_id c7_rows)) \<noteq> 0 \<and> distinct (map conversation_id c7_rows) \<and>
   fallback_rate (compute_metrics c7_rows) = 0 \<and>
   abandonment_rate (compute_metrics c7_rows) = 1 / 2 \<and>
   abandonment_rate (compute_metrics c7_rows) \<le> 1"
  using C10_rates_over_distinct_ids [of c7_rows] by (simp add: c7_rows_def Let_def)

section \<open>Properties of the synthetic generator\<close>

lemma integers_range:
  assumes "low < high"
  shows "low \<le> fst (integers low high g) \<and> fst (integers low high g) < high"
proof -
  have "0 \<le> int (g 0) mod (high - low)" "int (g 0) mod (high - low) < high - low"
    using assms by simp_all
  then show ?thesis
    by (simp add: integers_def next_draw_def)
qed

lemma abandoned_slots: "fst (integers 0 6 g) < 6"
  using integers_range [of 0 6 g] by simp

lemma completed_slots: "3 \<le> fst (integers 3 7 g)" "fst (integers 3 7 g) \<le> 6"
  using integers_range [of 3 7 g] by simp_all

definition synthetic_ok :: "conversation \<Rightarrow> bool" where
  "synthetic_ok row \<longleftrightarrow>
     (abandoned row \<longrightarrow> slots_filled row < slots_total row \<and> completed_at row = None) \<and>
     (\<not> abandoned row \<longrightarrow> 3 \<le> slots_filled row \<and> slots_filled row \<le> slots_total row) \<and>
     (escalated row \<longrightarrow> priority row = Some ''Alta'') \<and>
     (notification_sent_at row \<noteq> None \<longrightarrow> priority row = Some ''Alta'')"

lemma synthetic_row_ok: "synthetic_ok (fst (synthetic_row strftime start i g))"
  by (simp add: synthetic_row_def synthetic_ok_def Let_def split_beta
      abandoned_slots completed_slots)

lemma synthetic_rows_ok: "row \<in> set (synthetic_rows strftime start is g) \<Longrightarrow> synthetic_ok row"
proof (induction "is" arbitrary: g)
  case Nil
  then show ?case by simp
next
  case (Cons i rest)
  obtain r g' where step: "synthetic_row strftime start i g = (r, g')"
    by (cases "synthetic_row strftime start i g")
  have "synthetic_ok r"
    using synthetic_row_ok [of strftime start i g] step by simp
  with Cons step show ?case by auto
qed

lemma length_synthetic_rows: "length (synthetic_rows strftime start is g) = length is"
  by (induction "is" arbitrary: g) (simp_all split: prod.splits)

text \<open>
  C8. Every row of the synthetic generator satisfies: an abandoned row has
  \<^verbatim>\<open>slots_filled < slots_total\<close> and no \<^verbatim>\<open>completed_at\<close>; a row that is not abandoned has
  \<^verbatim>\<open>3 \<le> slots_filled \<le> slots_total\<close>; a row is escalated only if its priority is
  \<^verbatim>\<open>"Alta"\<close>, and has a \<^verbatim>\<open>notification_sent_at\<close> only if its priority is \<^verbatim>\<open>"Alta"\<close>. The
  generator returns exactly \<^verbatim>\<open>num_rows\<close> rows (for a count \<^verbatim>\<open>num_rows \<ge> 0\<close>; the range of a
  negative count is empty). Termination: \<open>generate_synthetic_data\<close> is a total function,
  defined by structural recursion over \<^verbatim>\<open>range(num_rows)\<close>, for every sequence of draws.
\<close>

theorem C8_synthetic_generator:
  "(\<forall>row \<in> set (generate_synthetic_data e num_rows).
      (abandoned row \<longrightarrow> slots_filled row < slots_total row \<and> completed_at row = None) \<and>
      (\<not> abandoned row \<longrightarrow> 3 \<le> slots_filled row \<and> slots_filled row \<le> slots_total row) \<and>
      (escalated row \<longrightarrow> priority row = Some ''Alta'') \<and>
      (notification_sent_at row \<noteq> None \<longrightarrow> priority row = Some ''Alta'')) \<and>
   (0 \<le> num_rows \<longrightarrow> int (length (generate_synthetic_data e num_rows)) = num_rows)"
proof
  show "\<forall>row \<in> set (generate_synthetic_data e num_rows).
      (abandoned row \<longrightarrow> slots_filled row < slots_total row \<and> completed_at row = None) \<and>
      (\<not> abandoned row \<longrightarrow> 3 \<le> slots_filled row \<and> slots_filled row \<le> slots_total row) \<and>
      (escalated row \<longrightarrow> priority row = Some ''Alta'') \<and>
      (notification_sent_at row \<noteq> None \<longrightarrow> priority row = Some ''Alta'')"
  proof
    fix row
    assume "row \<in> set (generate_synthetic_data e num_rows)"
    then have "synthetic_ok row"
      unfolding generate_synthetic_data_def by (rule synthetic_rows_ok)
    then show "(abandoned row \<longrightarrow> slots_filled row < slots_total row \<and> completed_at row = None) \<and>
      (\<not> abandoned row \<longrightarrow> 3 \<le> slots_filled row \<and> slots_filled row \<le> slots_total row) \<and>
      (escalated row \<longrightarrow> priority row = Some ''Alta'') \<and>
      (notification_sent_at row \<noteq> None \<longrightarrow> priority row = Some ''Alta'')"
      by (simp add: synthetic_ok_def)
  qed
  show "0 \<le> num_rows \<longrightarrow> int (length (generate_synthetic_data e num_rows)) = num_rows"
    by (simp add: generate_synthetic_data_def length_synthetic_rows)
qed

text \<open>
  An environment for the closed instances below: the clock at 0, seeded generators that
  deliver the draw \<open>seed + 7 * i\<close> at position \<open>i\<close>, a global generator given by the list of
  its first draws (uniform draws 0, one half, 0, one half, 0), and a fixed date string.
\<close>

definition draws :: "nat list \<Rightarrow> rng" where
  "draws xs i = (if i < length xs then xs ! i else 0)"

lemma next_draw_draws [simp]:
  "next_draw (draws (x # xs)) = (x, draws xs)" "next_draw (draws []) = (0, draws [])"
  by (auto simp: next_draw_def draws_def fun_eq_iff)

definition env0 :: env where
  "env0 = \<lparr> now = 0, default_rng = (\<lambda>seed i. seed + 7 * i),
            np_random = draws [0, 4503599627370496, 0, 4503599627370496, 0],
            strftime_ymd = (\<lambda>t. ''19700101'') \<rparr>"

lemma replicate_4: "replicate 4 x = [x, x, x, x]"
  by (simp add: numeral_eq_Suc)

lemma synthetic_env0:
  "generate_synthetic_data env0 1 =
     [\<lparr> conversation_id = ''conv_0'', channel = ''facebook'', uf = Some ''rs'',
        priority = Some ''Alta'',
        created_at = Some (- 90 * day + (42 * day + hour + 56 * minute)),
        completed_at = None,
        notification_sent_at = Some (- 90 * day + (42 * day + hour + 56 * minute) + 4 * minute),
        fallback = True, fallback_phrase = Some o_que_voce_quis_dizer,
        slots_filled = 2, slots_total = 6, escalated = True, abandoned = True,
        intent_final = ''fallback'', protocol = ''SUP-19700101-00000'' \<rparr>]"
  by (simp add: generate_synthetic_data_def env0_def synthetic_row_def Let_def
      integers_def random_def choice_def choice_p_def next_draw_def searchsorted_right_def
      priorities_def channels_def ufs_def sample_fallbacks_def str_nat.simps digit_char_def
      zfill_def replicate_4 minute_def)

theorem C8_synthetic_generator_witness:
  "(0::int) \<le> 1 \<and> int (length (generate_synthetic_data env0 1)) = 1 \<and>
   list_all (\<lambda>row. abandoned row \<and> slots_filled row < slots_total row \<and>
        completed_at row = None \<and> escalated row \<and> notification_sent_at row \<noteq> None \<and>
        priority row = Some ''Alta'') (generate_synthetic_data env0 1)"
  using C8_synthetic_generator [of env0 1] by (simp add: synthetic_env0)

section \<open>Properties of the structured path without logs\<close>

lemma random_unit: "0 \<le> fst (random g) \<and> fst (random g) < 1"
  by (simp add: random_def next_draw_def)

lemma random_fst: "fst (random g) = real (g 0 mod 2 ^ 53) / 2 ^ 53"
  by (simp add: random_def next_draw_def)

lemma random_snd: "snd (random g) = (\<lambda>i. g (Suc i))"
  by (simp add: random_def next_draw_def)

lemma fallback_draw:
  "fst (choice_p [True, False] [1 / 10, 9 / 10] g) = (fst (random g) < 1 / 10)"
  using random_unit [of g]
  by (auto simp add: choice_p_def searchsorted_right_def split_beta)

lemma choice_p_snd: "snd (choice_p xs ps g) = (\<lambda>i. g (Suc i))"
  by (simp add: choice_p_def split_beta random_snd)

lemma length_fallback_flags: "length (fst (fallback_flags n g)) = n"
  by (induction n arbitrary: g) (simp_all add: split_beta)

lemma fallback_flags_nth:
  "i < n \<Longrightarrow> fst (fallback_flags n g) ! i = (real (g i mod 2 ^ 53) / 2 ^ 53 < 1 / 10)"
proof (induction n arbitrary: g i)
  case 0
  then show ?case by simp
next
  case (Suc n)
  show ?case
  proof (cases i)
    case 0
    then show ?thesis
      by (simp add: split_beta fallback_draw random_fst)
  next
    case (Suc j)
    with Suc.prems have "j < n" by simp
    from Suc.IH [OF this, of "snd (choice_p [True, False] [1 / 10, 9 / 10] g)"]
    show ?thesis
      using Suc by (simp add: split_beta choice_p_snd)
  qed
qed

lemma delay_range:
  "5 * minute \<le> to_timedelta_minutes (fst (uniform 5 15 g)) \<and>
   to_timedelta_minutes (fst (uniform 5 15 g)) \<le> 15 * minute"
proof -
  let ?u = "fst (random g)"
  have u: "0 \<le> ?u" "?u < 1" using random_unit [of g] by simp_all
  have x: "fst (uniform 5 15 g) = 5 + 10 * ?u"
    by (simp add: uniform_def split_beta)
  have lo: "real_of_int (5 * minute) \<le> (5 + 10 * ?u) * real_of_int minute"
    using u by (simp add: minute_def)
  have hi: "(5 + 10 * ?u) * real_of_int minute \<le> real_of_int (15 * minute)"
    using u by (simp add: minute_def)
  show ?thesis
    unfolding to_timedelta_minutes_def x
    using lo hi by (simp add: le_floor_iff floor_le_iff)
qed

lemma length_simulated_notifications: "length (simulated_notifications ds g) = length ds"
  by (induction ds arbitrary: g) (simp_all add: split_beta)

lemma simulated_notifications_nth:
  "i < length ds \<Longrightarrow>
   (if pg_prioridade (ds ! i) = Some ''Alta''
    then \<exists>delay. 5 * minute \<le> delay \<and> delay \<le> 15 * minute \<and>
           simulated_notifications ds g ! i = map_option (\<lambda>t. t + delay) (pg_created_at (ds ! i))
    else simulated_notifications ds g ! i = None)"
proof (induction ds arbitrary: g i)
  case Nil
  then show ?case by simp
next
  case (Cons d ds)
  show ?case
  proof (cases i)
    case 0
    then show ?thesis
      using delay_range [of g] by (auto simp add: split_beta)
  next
    case (Suc j)
    with Cons.prems have j: "j < length ds" by simp
    show ?thesis
      using Cons.IH [OF j] Suc by (simp add: split_beta)
  qed
qed

lemma base_row_fixed:
  "channel (base_row d) = ''web''" "slots_total (base_row d) = 6"
  "\<not> abandoned (base_row d)" "completed_at (base_row d) = None"
  by (simp_all add: base_row_def)

lemma length_simulate_conversation: "length (simulate_conversation g pg) = length pg"
  by (simp add: simulate_conversation_def split_beta length_fallback_flags
      length_simulated_notifications)

lemma simulate_conversation_nth:
  assumes "i < length pg"
  shows "simulate_conversation g pg ! i =
     (base_row (pg ! i))
       \<lparr>fallback := fst (fallback_flags (length pg) g) ! i,
        notification_sent_at :=
          simulated_notifications pg (snd (fallback_flags (length pg) g)) ! i\<rparr>"
  using assms
  by (simp add: simulate_conversation_def split_beta length_fallback_flags
      length_simulated_notifications)

text \<open>
  C6. With exactly 3 structured rows and a log frame without rows, the reconciler returns
  the 3 structured rows with simulated enrichment: every row has \<^verbatim>\<open>channel = "web"\<close> and
  \<^verbatim>\<open>slots_total = 6\<close>; the fallback flag of row \<open>i\<close> is set exactly when the \<open>i\<close>-th uniform
  draw of the generator is below 0.1 (the positive rate of 10 per cent); a row of priority
  \<^verbatim>\<open>"Alta"\<close> has \<^verbatim>\<open>notification_sent_at\<close> equal to its \<^verbatim>\<open>created_at\<close> plus a delay between 5
  and 15 minutes, and no other row has a \<^verbatim>\<open>notification_sent_at\<close>.
\<close>

theorem C6_structured_rows_without_logs:
  assumes "length pg_data = 3" and "rows mongo_logs = []"
  shows "\<exists>out. combine_postgres_and_mongo_data e pg_data mongo_logs = Inr out \<and>
     length out = 3 \<and>
     (\<forall>row \<in> set out. channel row = ''web'' \<and> slots_total row = 6) \<and>
     (\<forall>i < 3. fallback (out ! i) = (real (np_random e i mod 2 ^ 53) / 2 ^ 53 < 1 / 10)) \<and>
     (\<forall>i < 3. if pg_prioridade (pg_data ! i) = Some ''Alta''
              then \<exists>delay. 5 * minute \<le> delay \<and> delay \<le> 15 * minute \<and>
                     notification_sent_at (out ! i) =
                       map_option (\<lambda>t. t + delay) (pg_created_at (pg_data ! i))
              else notification_sent_at (out ! i) = None)"
proof -
  let ?out = "simulate_conversation (np_random e) pg_data"
  have res: "combine_postgres_and_mongo_data e pg_data mongo_logs = Inr ?out"
    using assms by (auto simp: combine_postgres_and_mongo_data_def empty_frame_def)
  have len: "length ?out = 3"
    using assms by (simp add: length_simulate_conversation)
  have nth: "?out ! i =
      (base_row (pg_data ! i))
        \<lparr>fallback := fst (fallback_flags 3 (np_random e)) ! i,
         notification_sent_at :=
           simulated_notifications pg_data (snd (fallback_flags 3 (np_random e))) ! i\<rparr>"
    if "i < 3" for i
    using simulate_conversation_nth [of i pg_data "np_random e"] that assms by simp
  have fixed: "\<forall>row \<in> set ?out. channel row = ''web'' \<and> slots_total row = 6"
  proof
    fix row
    assume "row \<in> set ?out"
    then obtain i where "i < 3" "row = ?out ! i"
      using len by (metis in_set_conv_nth)
    then show "channel row = ''web'' \<and> slots_total row = 6"
      by (simp add: nth base_row_fixed)
  qed
  have flags: "\<forall>i < 3. fallback (?out ! i) = (real (np_random e i mod 2 ^ 53) / 2 ^ 53 < 1 / 10)"
    by (simp add: nth fallback_flags_nth)
  have sent: "\<forall>i < 3. if pg_prioridade (pg_data ! i) = Some ''Alta''
              then \<exists>delay. 5 * minute \<le> delay \<and> delay \<le> 15 * minute \<and>
                     notification_sent_at (?out ! i) =
                       map_option (\<lambda>t. t + delay) (pg_created_at (pg_data ! i))
              else notification_sent_at (?out ! i) = None"
  proof (intro allI impI)
    fix i :: nat
    assume i: "i < 3"
    then have "i < length pg_data" using assms by simp
    from simulated_notifications_nth [OF this, of "snd (fallback_flags 3 (np_random e))"]
    show "if pg_prioridade (pg_data ! i) = Some ''Alta''
          then \<exists>delay. 5 * minute \<le> delay \<and> delay \<le> 15 * minute \<and>
                 notification_sent_at (?out ! i) =
                   map_option (\<lambda>t. t + delay) (pg_created_at (pg_data ! i))
          else notification_sent_at (?out ! i) = None"
      using i by (simp add: nth)
  qed
  show ?thesis
    using res len fixed flags sent by blast
qed

section \<open>Properties of the session aggregator and of the three states\<close>

lemma summarize_session_Inr:
  assumes "summarize_session cols sid grp = Inr s"
  shows "conversation_id s = sid" and "abandoned s \<longleftrightarrow> completed_at s = None"
    and "''message'' \<in> set cols" and "''component'' \<in> set cols"
  using assms by (auto simp: summarize_session_def Let_def split: if_splits)



lemma summarize_groups_rows:
  assumes "summarize_groups cols gs = Inr ss" and "s \<in> set ss"
  shows "abandoned s \<longleftrightarrow> completed_at s = None"
  using assms
proof (induction gs arbitrary: ss)
  case Nil
  then show ?case by simp
next
  case (Cons g gs)
  obtain sid grp where g: "g = (sid, grp)" by (cases g)
  show ?case
  proof (cases "sid = [] \<or> sid = ''None''")
    case True
    with Cons g show ?thesis by simp
  next
    case False
    with Cons.prems g obtain s0 ss0 where
      s0: "summarize_session cols sid grp = Inr s0" and
      ss0: "summarize_groups cols gs = Inr ss0" and ss: "ss = s0 # ss0"
      by (auto split: sum.splits)
    show ?thesis
    proof (cases "s = s0")
      case True
      then show ?thesis using summarize_session_Inr(2) [OF s0] by simp
    next
      case False
      with Cons.prems ss have "s \<in> set ss0" by simp
      then show ?thesis using Cons.IH [OF ss0] by simp
    qed
  qed
qed

lemma summarize_groups_ids:
  assumes "summarize_groups cols gs = Inr ss"
  shows "map conversation_id ss = filter (\<lambda>k. k \<noteq> [] \<and> k \<noteq> ''None'') (map fst gs)"
  using assms
proof (induction gs arbitrary: ss)
  case Nil
  then show ?case by simp
next
  case (Cons g gs)
  obtain sid grp where g: "g = (sid, grp)" by (cases g)
  show ?case
  proof (cases "sid = [] \<or> sid = ''None''")
    case True
    with Cons g show ?thesis by auto
  next
    case False
    with Cons.prems g obtain s0 ss0 where
      s0: "summarize_session cols sid grp = Inr s0" and
      ss0: "summarize_groups cols gs = Inr ss0" and ss: "ss = s0 # ss0"
      by (auto split: sum.splits)
    show ?thesis
      using False g ss Cons.IH [OF ss0] summarize_session_Inr(1) [OF s0] by simp
  qed
qed

lemma with_phrases_invariant:
  assumes "\<And>r p. P r \<Longrightarrow> P (r\<lparr>fallback_phrase := p\<rparr>)" and "\<forall>r \<in> set rs. P r"
  shows "\<forall>r \<in> set (with_phrases rs g). P r"
  using assms(2)
proof (induction rs arbitrary: g)
  case Nil
  then show ?case by simp
next
  case (Cons r rs)
  then show ?case
    by (auto simp: split_beta assms(1))
qed

lemma length_with_phrases: "length (with_phrases rs g) = length rs"
  by (induction rs arbitrary: g) (simp_all add: split_beta)

definition structured_ok :: "conversation \<Rightarrow> bool" where
  "structured_ok r \<longleftrightarrow> \<not> abandoned r \<and> completed_at r = None"

lemma enrich_from_logs_rows:
  assumes "enrich_from_logs g pg logs = Inr out"
  shows "length out = length pg" and "\<forall>r \<in> set out. structured_ok r"
proof -
  let ?flagged = "map (\<lambda>d. (base_row d)\<lparr>fallback := Str (pg_protocolo d) \<in> set (fallback_protocols logs)\<rparr>) pg"
  let ?phrased = "if fallback_protocols logs \<noteq> [] then with_phrases ?flagged g else ?flagged"
  have out: "out = map (\<lambda>row. row\<lparr>notification_sent_at := notification_protocols logs (Str (protocol row))\<rparr>) ?phrased"
    using assms by (simp add: enrich_from_logs_def Let_def split: if_splits)
  show "length out = length pg"
    by (simp add: out length_with_phrases)
  have "\<forall>r \<in> set ?flagged. structured_ok r"
    by (simp add: structured_ok_def base_row_fixed)
  then have "\<forall>r \<in> set ?phrased. structured_ok r"
    using with_phrases_invariant [of structured_ok ?flagged g]
    by (simp add: structured_ok_def)
  then show "\<forall>r \<in> set out. structured_ok r"
    by (auto simp: out structured_ok_def)
qed


lemma simulate_conversation_rows: "\<forall>r \<in> set (simulate_conversation g pg). structured_ok r"
  by (auto simp: simulate_conversation_def split_beta structured_ok_def base_row_fixed
      dest!: set_zip_leftD)

lemma synthetic_row_completed:
  "abandoned (fst (synthetic_row strftime start i g)) \<longleftrightarrow>
   completed_at (fst (synthetic_row strftime start i g)) = None"
  by (simp add: synthetic_row_def Let_def split_beta)

lemma synthetic_rows_completed:
  "row \<in> set (synthetic_rows strftime start is g) \<Longrightarrow> abandoned row \<longleftrightarrow> completed_at row = None"
proof (induction "is" arbitrary: g)
  case Nil
  then show ?case by simp
next
  case (Cons i rest)
  obtain r g' where step: "synthetic_row strftime start i g = (r, g')"
    by (cases "synthetic_row strftime start i g")
  have "abandoned r \<longleftrightarrow> completed_at r = None"
    using synthetic_row_completed [of strftime start i g] step by simp
  with Cons step show ?case by auto
qed







lemma transform_rows:
  assumes "transform_logs_to_sessions df = Inr ss" and "s \<in> set ss"
  shows "abandoned s \<longleftrightarrow> completed_at s = None"
  using assms summarize_groups_rows
  by (auto simp: transform_logs_to_sessions_def Let_def split: if_splits)

lemma generated_rows_completed:
  "row \<in> set (generate_synthetic_data e n) \<Longrightarrow> abandoned row \<longleftrightarrow> completed_at row = None"
  unfolding generate_synthetic_data_def by (rule synthetic_rows_completed)


section \<open>The three-entry scenario\<close>

text \<open>
  The scenario of the specification: session \<^verbatim>\<open>s1\<close> with an entry at \<open>t0\<close> whose message is
  \<^verbatim>\<open>iniciado\<close>, an entry five minutes later with the fallback intent and a query text, and
  an entry ten minutes after \<open>t0\<close> whose message is the completion text. \<open>scenario\<close> is the
  frame \<^verbatim>\<open>pd.json_normalize\<close> builds from these three documents: its columns are the keys
  that occur in them. \<open>scenario_with_component\<close> is the same frame with a column
  \<^verbatim>\<open>component\<close> that is \<^verbatim>\<open>NaN\<close> in the three rows.
\<close>

definition fluxo_concluido :: string where
  "fluxo_concluido = ''Fluxo '' @ concluido_acute"

definition scenario_rows :: "datetime \<Rightarrow> log_row list" where
  "scenario_rows t0 =
     [\<lparr> timestamp = Some t0,
        cells = [(''session_id'', Str ''s1''), (''message'', Str ''iniciado'')] \<rparr>,
      \<lparr> timestamp = Some (t0 + 5 * minute),
        cells = [(''session_id'', Str ''s1''), (''intentName'', Str ''Default Fallback Intent''),
                 (''queryText'', Str nao_entendi)] \<rparr>,
      \<lparr> timestamp = Some (t0 + 10 * minute),
        cells = [(''session_id'', Str ''s1''), (''message'', Str fluxo_concluido)] \<rparr>]"

definition scenario_columns :: "string list" where
  "scenario_columns = [''session_id'', ''timestamp'', ''message'', ''intentName'', ''queryText'']"

definition scenario :: "datetime \<Rightarrow> log_frame" where
  "scenario t0 = \<lparr> columns = scenario_columns, rows = scenario_rows t0 \<rparr>"

definition scenario_with_component :: "datetime \<Rightarrow> log_frame" where
  "scenario_with_component t0 =
     \<lparr> columns = scenario_columns @ [''component''], rows = scenario_rows t0 \<rparr>"

definition scenario_session :: "datetime \<Rightarrow> conversation" where
  "scenario_session t0 =
     \<lparr> conversation_id = ''s1'', channel = ''web'', uf = Some ''sp'', priority = Some Media,
       created_at = Some t0, completed_at = Some (t0 + 10 * minute),
       notification_sent_at = None, fallback = True, fallback_phrase = Some nao_entendi,
       slots_filled = 6, slots_total = 6, escalated = False, abandoned = False,
       intent_final = ''AbrirChamadoSuporte'', protocol = ''MONGO-s1'' \<rparr>"

lemma null_cells_never_match [simp]:
  "\<not> is_completion NaN" "\<not> is_completion PyNone"
  "\<not> is_fallback_message NaN" "\<not> is_fallback_message PyNone"
  "\<not> is_sendgrid NaN" "\<not> is_sendgrid PyNone"
  by (simp_all add: is_completion_def is_fallback_message_def is_sendgrid_def
      contains_ci_def fold_code_def concluido_acute_def)

lemma scenario_messages [simp]:
  "\<not> is_completion (Str ''iniciado'')" "is_completion (Str fluxo_concluido)"
  "\<not> is_fallback_message (Str ''iniciado'')" "\<not> is_fallback_message (Str fluxo_concluido)"
  by (simp_all add: is_completion_def is_fallback_message_def contains_ci_def fold_code_def
      concluido_acute_def fluxo_concluido_def)

definition scenario_prepared :: "datetime \<Rightarrow> log_row list" where
  "scenario_prepared t0 =
     map (\<lambda>r. r\<lparr>cells := (''session_id'', Str ''s1'') # cells r\<rparr>) (scenario_rows t0)"

lemma scenario_session_col:
  "find_session_col \<lparr> columns = scenario_columns @ extra, rows = scenario_rows t0 \<rparr>
     = Some ''session_id''"
  by (simp add: find_session_col_def scenario_columns_def scenario_rows_def
      possible_session_cols_def cell_of_def)

lemma scenario_assign:
  "assign_session_id \<lparr> columns = scenario_columns @ extra, rows = scenario_rows t0 \<rparr>
     = \<lparr> columns = scenario_columns @ extra, rows = scenario_prepared t0 \<rparr>"
  unfolding assign_session_id_def scenario_session_col option.case
  by (simp add: set_col_def scenario_columns_def scenario_rows_def scenario_prepared_def
      cell_of_def)

lemma scenario_normalize:
  "normalize_fields \<lparr> columns = scenario_columns @ [], rows = rs \<rparr>
     = \<lparr> columns = scenario_columns @ [], rows = rs \<rparr>"
  "normalize_fields \<lparr> columns = scenario_columns @ [''component''], rows = rs \<rparr>
     = \<lparr> columns = scenario_columns @ [''component''], rows = rs \<rparr>"
  by (simp_all add: normalize_fields_def from_context_def scenario_columns_def)

lemma scenario_sorted: "sort_values (scenario_prepared t0) = scenario_prepared t0"
  by (simp add: sort_values_def scenario_prepared_def scenario_rows_def minute_def)

lemma scenario_groups:
  "groupby_session (scenario_prepared t0) = [(''s1'', scenario_prepared t0)]"
  by (simp add: groupby_session_def scenario_prepared_def scenario_rows_def cell_of_def)

lemma scenario_summary:
  "summarize_session (scenario_columns @ [''component'']) ''s1'' (scenario_prepared t0)
     = Inr (scenario_session t0)"
  by (simp add: summarize_session_def Let_def scenario_columns_def scenario_prepared_def
      scenario_rows_def cell_of_def min_ts_def first_value_def or_default_def minute_def
      scenario_session_def)

lemma scenario_no_component:
  "summarize_session scenario_columns ''s1'' grp = Inl AttributeError"
  by (simp add: summarize_session_def Let_def scenario_columns_def)

lemma scenario_with_component_sessions:
  "transform_logs_to_sessions (scenario_with_component t0) = Inr [scenario_session t0]"
proof -
  have cols: "''timestamp'' \<in> set scenario_columns"
    by (simp add: scenario_columns_def)
  show ?thesis
    unfolding transform_logs_to_sessions_def scenario_with_component_def scenario_assign
    by (simp add: scenario_normalize Let_def cols scenario_sorted scenario_groups
        scenario_summary del: append.simps)
qed

lemma scenario_frame_prepared:
  "normalize_fields (assign_session_id (scenario t0))
     = \<lparr> columns = scenario_columns, rows = scenario_prepared t0 \<rparr>"
  using scenario_assign [of "[]" t0] scenario_normalize(1) [of "scenario_prepared t0"]
  by (simp add: scenario_def)

lemma scenario_has_timestamp: "''timestamp'' \<in> set scenario_columns"
  by (simp add: scenario_columns_def)

text \<open>
  C5. On the three-entry scenario the aggregator does not return a record: the frame has
  no column \<^verbatim>\<open>component\<close>, \<^verbatim>\<open>grp.get('component', '')\<close> is a string, and the call of
  \<^verbatim>\<open>.astype\<close> on it raises AttributeError. (\<open>scenario_with_component_sessions\<close> above: once
  the frame has the column, the result is the one record the scenario describes, with
  \<^verbatim>\<open>fallback\<close>, the query text as phrase, \<^verbatim>\<open>completed_at\<close> ten minutes after \<open>t0\<close> and
  \<^verbatim>\<open>abandoned = False\<close>.)
\<close>

theorem C5_scenario_raises:
  "transform_logs_to_sessions (scenario t0) = Inl AttributeError"
  unfolding transform_logs_to_sessions_def scenario_frame_prepared
  by (simp add: Let_def scenario_has_timestamp scenario_sorted scenario_groups
      scenario_no_component)

section \<open>The reconciler on concrete inputs\<close>

text \<open>
  Three structured rows (two of priority \<^verbatim>\<open>"Alta"\<close>, one of them without \<^verbatim>\<open>created_at\<close>)
  and a log store that returned nothing.
\<close>

definition no_logs :: log_frame where
  "no_logs = \<lparr> columns = [], rows = [] \<rparr>"

definition three_cases :: "denuncia list" where
  "three_cases =
     [\<lparr> pg_protocolo = ''P-1'', pg_prioridade = Some ''Alta'', pg_uf = Some ''sp'',
        pg_created_at = Some 0 \<rparr>,
      \<lparr> pg_protocolo = ''P-2'', pg_prioridade = Some ''Baixa'', pg_uf = Some ''rj'',
        pg_created_at = Some (3 * minute) \<rparr>,
      \<lparr> pg_protocolo = ''P-3'', pg_prioridade = Some ''Alta'', pg_uf = None,
        pg_created_at = None \<rparr>]"

definition three_rows :: "conversation list" where
  "three_rows =
     [\<lparr> conversation_id = ''P-1'', channel = ''web'', uf = Some ''sp'', priority = Some ''Alta'',
        created_at = Some 0, completed_at = None, notification_sent_at = Some (10 * minute),
        fallback = True, fallback_phrase = None, slots_filled = 6, slots_total = 6,
        escalated = True, abandoned = False, intent_final = ''AbrirChamadoSuporte'',
        protocol = ''P-1'' \<rparr>,
      \<lparr> conversation_id = ''P-2'', channel = ''web'', uf = Some ''rj'', priority = Some ''Baixa'',
        created_at = Some (3 * minute), completed_at = None, notification_sent_at = None,
        fallback = False, fallback_phrase = None, slots_filled = 6, slots_total = 6,
        escalated = False, abandoned = False, intent_final = ''AbrirChamadoSuporte'',
        protocol = ''P-2'' \<rparr>,
      \<lparr> conversation_id = ''P-3'', channel = ''web'', uf = None, priority = Some ''Alta'',
        created_at = None, completed_at = None, notification_sent_at = None,
        fallback = True, fallback_phrase = None, slots_filled = 6, slots_total = 6,
        escalated = True, abandoned = False, intent_final = ''AbrirChamadoSuporte'',
        protocol = ''P-3'' \<rparr>]"



lemma three_flags:
  "fallback_flags 3 (draws [0, 4503599627370496, 0, 4503599627370496, 0])
     = ([True, False, True], draws [4503599627370496, 0])"
  by (simp add: numeral_3_eq_3 choice_p_def random_def searchsorted_right_def)

lemma three_notifications:
  "simulated_notifications three_cases (draws [4503599627370496, 0])
     = [Some (10 * minute), None, None]"
  by (simp add: three_cases_def uniform_def random_def to_timedelta_minutes_def minute_def)

lemma three_cases_simulated: "simulate_conversation (np_random env0) three_cases = three_rows"
proof -
  have len: "length three_cases = 3" by (simp add: three_cases_def)
  show ?thesis
    unfolding simulate_conversation_def len
    by (simp add: env0_def three_flags three_notifications)
      (simp add: three_cases_def three_rows_def base_row_def)
qed

lemma three_cases_combined:
  "combine_postgres_and_mongo_data env0 three_cases no_logs = Inr three_rows"
  by (simp add: combine_postgres_and_mongo_data_def empty_frame_def no_logs_def
      three_cases_simulated) (simp add: three_cases_def)

lemma scenario_combined:
  "combine_postgres_and_mongo_data env0 [] (scenario_with_component 0)
     = Inr [scenario_session 0]"
  by (simp add: combine_postgres_and_mongo_data_def scenario_with_component_sessions Let_def)
    (simp add: empty_frame_def scenario_with_component_def scenario_rows_def scenario_columns_def)


text \<open>An instance of C6: the three rows above, evaluated in the environment \<open>env0\<close>.\<close>

theorem C6_structured_rows_without_logs_witness:
  "length three_cases = 3 \<and> rows no_logs = [] \<and>
   combine_postgres_and_mongo_data env0 three_cases no_logs = Inr three_rows \<and>
   length three_rows = 3"
  using C6_structured_rows_without_logs [of three_cases no_logs env0]
  by (simp add: three_cases_combined) (simp add: three_cases_def no_logs_def three_rows_def)


section \<open>Invariant of the record sets\<close>

text \<open>
  C1, as the code has it. In the record sets of the logs-only state and of the synthetic
  state (no structured row), a row is abandoned if and only if it has no \<^verbatim>\<open>completed_at\<close>.
  In the record set of the structured-first state every row has \<^verbatim>\<open>abandoned = False\<close> and
  no \<^verbatim>\<open>completed_at\<close>: the source sets \<^verbatim>\<open>abandoned\<close> to \<^verbatim>\<open>False\<close> and does not simulate a
  completion time.
\<close>

theorem C1_abandoned_iff_not_completed:
  assumes "combine_postgres_and_mongo_data e pg_data mongo_logs = Inr out" and "row \<in> set out"
  shows "if pg_data = [] then (abandoned row \<longleftrightarrow> completed_at row = None)
         else (\<not> abandoned row \<and> completed_at row = None)"
proof (cases "pg_data = []")
  case True
  have "abandoned row \<longleftrightarrow> completed_at row = None"
  proof (cases "empty_frame mongo_logs")
    case True
    with \<open>pg_data = []\<close> assms show ?thesis
      by (auto simp: combine_postgres_and_mongo_data_def generated_rows_completed)
  next
    case False
    with \<open>pg_data = []\<close> assms show ?thesis
      by (auto simp: combine_postgres_and_mongo_data_def Let_def generated_rows_completed
          transform_rows split: sum.splits if_splits)
  qed
  with True show ?thesis by simp
next
  case False
  have "structured_ok row"
  proof (cases "empty_frame mongo_logs")
    case True
    with False assms show ?thesis
      using simulate_conversation_rows by (auto simp: combine_postgres_and_mongo_data_def)
  next
    case nonempty: False
    with False assms have "enrich_from_logs (np_random e) pg_data mongo_logs = Inr out"
      by (simp add: combine_postgres_and_mongo_data_def)
    from enrich_from_logs_rows(2) [OF this] assms(2) show ?thesis by blast
  qed
  with False show ?thesis by (simp add: structured_ok_def)
qed


text \<open>
  The equivalence of C1 fails in the structured-first state: the first of the three rows
  is not abandoned and has no \<^verbatim>\<open>completed_at\<close>.
\<close>

theorem C1_counterexample:
  "combine_postgres_and_mongo_data env0 three_cases no_logs = Inr three_rows \<and>
   abandoned (hd three_rows) = False \<and> completed_at (hd three_rows) = None"
  by (simp add: three_cases_combined) (simp add: three_rows_def)


text \<open>
  Two instances of C1: the logs-only state on the scenario with a \<^verbatim>\<open>component\<close> column,
  and the structured-first state on the three rows.
\<close>

theorem C1_abandoned_iff_not_completed_witness:
  "combine_postgres_and_mongo_data env0 [] (scenario_with_component 0) = Inr [scenario_session 0] \<and>
   scenario_session 0 \<in> set [scenario_session 0] \<and>
   (abandoned (scenario_session 0) \<longleftrightarrow> completed_at (scenario_session 0) = None) \<and>
   combine_postgres_and_mongo_data env0 three_cases no_logs = Inr three_rows \<and>
   hd three_rows \<in> set three_rows \<and>
   \<not> abandoned (hd three_rows) \<and> completed_at (hd three_rows) = None"
  using C1_abandoned_iff_not_completed [OF scenario_combined, of "scenario_session 0"]
    C1_abandoned_iff_not_completed [OF three_cases_combined, of "hd three_rows"]
  by (simp add: scenario_combined three_cases_combined)
    (simp add: three_rows_def three_cases_def)


section \<open>Exceptions in the reconciler\<close>






section \<open>Row order and the session aggregator\<close>

subsection \<open>Sorting a frame does not depend on the order of its rows\<close>

lemma all_equal_lists:
  assumes "mset xs = mset ys" and "\<forall>a \<in> set xs. \<forall>b \<in> set xs. a = b"
  shows "xs = ys"
proof (cases xs)
  case Nil
  with assms show ?thesis by simp
next
  case (Cons k rest)
  have sets: "set ys = set xs" using assms(1) by (metis mset_eq_setD)
  have len: "length ys = length xs" using assms(1) by (metis mset_eq_length)
  have "\<forall>a \<in> set xs. a = k" using assms(2) Cons by simp
  then have "replicate (length xs) k = xs" "replicate (length ys) k = ys"
    using sets by (simp_all add: replicate_length_same)
  with len show ?thesis by simp
qed

lemma sort_values_filter: "filter P (sort_values rs) = sort_values (filter P rs)"
proof -
  have "filter P (filter Q rs) = filter Q (filter P rs)" for Q :: "log_row \<Rightarrow> bool"
    by (induction rs) auto
  then show ?thesis
    by (simp add: sort_values_def filter_sort)
qed

lemma set_sort_values: "set (sort_values rs) = set rs"
  by (auto simp: sort_values_def)

lemma sort_values_unique:
  assumes eq: "mset xs = mset ys"
    and ties: "\<forall>a \<in> set xs. \<forall>b \<in> set xs. timestamp a = timestamp b \<longrightarrow> a = b"
  shows "sort_values xs = sort_values ys"
proof -
  let ?f = "\<lambda>r. the (timestamp r)"
  let ?nn = "\<lambda>r. timestamp r \<noteq> None"
  have sets: "set ys = set xs" using eq by (metis mset_eq_setD)
  have "sort_key ?f (filter ?nn xs) = sort_key ?f (filter ?nn ys)"
  proof (rule properties_for_sort_key)
    show "mset (sort_key ?f (filter ?nn ys)) = mset (filter ?nn xs)"
      using eq by simp
    show "sorted (map ?f (sort_key ?f (filter ?nn ys)))"
      by simp
  next
    fix k
    assume "k \<in> set (sort_key ?f (filter ?nn ys))"
    then have k: "k \<in> set xs" "timestamp k \<noteq> None"
      using sets by auto
    let ?l = "filter (\<lambda>x. ?f k = ?f x) (sort_key ?f (filter ?nn ys))"
    let ?r = "filter (\<lambda>x. ?f k = ?f x) (filter ?nn xs)"
    have m: "mset ?r = mset ?l" using eq by (simp add: filter_filter_mset)
    have "\<forall>a \<in> set ?r. \<forall>b \<in> set ?r. a = b"
    proof (intro ballI)
      fix a b
      assume "a \<in> set ?r" "b \<in> set ?r"
      then have "a \<in> set xs" "b \<in> set xs" "timestamp a = timestamp b"
        by (auto simp: option.expand)
      with ties show "a = b" by blast
    qed
    with m have "?r = ?l" by (rule all_equal_lists)
    then show "?l = ?r" by simp
  qed
  moreover have "filter (\<lambda>r. timestamp r = None) xs = filter (\<lambda>r. timestamp r = None) ys"
  proof (rule all_equal_lists)
    show "mset (filter (\<lambda>r. timestamp r = None) xs) = mset (filter (\<lambda>r. timestamp r = None) ys)"
      using eq by simp
    show "\<forall>a \<in> set (filter (\<lambda>r. timestamp r = None) xs).
            \<forall>b \<in> set (filter (\<lambda>r. timestamp r = None) xs). a = b"
      using ties by auto
  qed
  ultimately show ?thesis by (simp add: sort_values_def)
qed

lemma set_dropna: "set (dropna cs) = {s. Str s \<in> set cs}"
  by (induction cs rule: dropna.induct) auto

lemma sort_remdups_cong:
  fixes a b :: "string list"
  assumes "set a = set b"
  shows "sort (remdups a) = sort (remdups b)"
  using assms by (metis sorted_list_of_set_sort_remdups)

lemma session_keys_sorted:
  "sort (remdups (dropna (map (\<lambda>r. cell_of r ''session_id'') (sort_values rs))))
     = sort (remdups (dropna (map (\<lambda>r. cell_of r ''session_id'') rs)))"
  by (rule sort_remdups_cong) (simp add: set_dropna set_sort_values)

text \<open>The guard of the loop: a key that is a string other than the empty one and \<^verbatim>\<open>None\<close>.\<close>

fun names_session :: "cell \<Rightarrow> bool" where
  "names_session (Str k) = (k \<noteq> [] \<and> k \<noteq> ''None'')"
| "names_session _ = False"

lemma summarize_groups_cong:
  assumes "\<And>k. k \<in> set keys \<Longrightarrow> k \<noteq> [] \<Longrightarrow> k \<noteq> ''None'' \<Longrightarrow> G k = G' k"
  shows "summarize_groups cols (map (\<lambda>k. (k, G k)) keys)
     = summarize_groups cols (map (\<lambda>k. (k, G' k)) keys)"
  using assms
proof (induction keys)
  case Nil
  then show ?case by simp
next
  case (Cons k keys)
  then have rest: "summarize_groups cols (map (\<lambda>k. (k, G k)) keys)
      = summarize_groups cols (map (\<lambda>k. (k, G' k)) keys)"
    by simp
  show ?case
  proof (cases "k = [] \<or> k = ''None''")
    case True
    then show ?thesis by (auto simp: rest)
  next
    case False
    with Cons.prems have gk: "G k = G' k" by simp
    show ?thesis using False by (simp add: gk rest split: sum.splits)
  qed
qed

lemma summarize_sorted_cong:
  assumes eq: "mset xs = mset ys"
    and ties: "\<forall>a \<in> set xs. \<forall>b \<in> set xs.
       names_session (cell_of a ''session_id'') \<and>
       cell_of a ''session_id'' = cell_of b ''session_id'' \<and> timestamp a = timestamp b
         \<longrightarrow> a = b"
  shows "summarize_groups cols (groupby_session (sort_values xs))
     = summarize_groups cols (groupby_session (sort_values ys))"
proof -
  let ?keys = "sort (remdups (dropna (map (\<lambda>r. cell_of r ''session_id'') xs)))"
  have sets: "set ys = set xs" using eq by (metis mset_eq_setD)
  have keys: "sort (remdups (dropna (map (\<lambda>r. cell_of r ''session_id'') ys))) = ?keys"
    by (rule sort_remdups_cong) (simp add: set_dropna sets)
  have grp: "filter (\<lambda>r. cell_of r ''session_id'' = Str k) (sort_values xs)
      = filter (\<lambda>r. cell_of r ''session_id'' = Str k) (sort_values ys)"
    if "k \<noteq> []" "k \<noteq> ''None''" for k
    unfolding sort_values_filter
  proof (rule sort_values_unique)
    show "mset (filter (\<lambda>r. cell_of r ''session_id'' = Str k) xs)
        = mset (filter (\<lambda>r. cell_of r ''session_id'' = Str k) ys)"
      using eq by simp
    show "\<forall>a \<in> set (filter (\<lambda>r. cell_of r ''session_id'' = Str k) xs).
            \<forall>b \<in> set (filter (\<lambda>r. cell_of r ''session_id'' = Str k) xs).
              timestamp a = timestamp b \<longrightarrow> a = b"
      using ties that by auto
  qed
  have "summarize_groups cols
        (map (\<lambda>k. (k, filter (\<lambda>r. cell_of r ''session_id'' = Str k) (sort_values xs))) ?keys)
      = summarize_groups cols
        (map (\<lambda>k. (k, filter (\<lambda>r. cell_of r ''session_id'' = Str k) (sort_values ys))) ?keys)"
    by (rule summarize_groups_cong) (rule grp)
  then show ?thesis
    unfolding groupby_session_def session_keys_sorted keys .
qed

subsection \<open>The preparation of the frame works row by row\<close>

definition keeps_session :: "(log_row \<Rightarrow> log_row) \<Rightarrow> bool" where
  "keeps_session h \<longleftrightarrow>
     (\<forall>r. timestamp (h r) = timestamp r \<and>
          cell_of (h r) ''session_id'' = cell_of r ''session_id'')"

definition rowwise :: "(log_frame \<Rightarrow> log_frame) \<Rightarrow> bool" where
  "rowwise T \<longleftrightarrow>
     (\<forall>cs. \<exists>cs' h. keeps_session h \<and>
        (\<forall>rs. T \<lparr> columns = cs, rows = rs \<rparr> = \<lparr> columns = cs', rows = map h rs \<rparr>))"

lemma rowwise_id: "rowwise (\<lambda>df. df)"
  unfolding rowwise_def keeps_session_def
  by (intro allI exI [of _ "\<lambda>r. r"] exI) (simp add: map_idI)

lemma rowwise_comp:
  assumes "rowwise T" and "rowwise U"
  shows "rowwise (\<lambda>df. U (T df))"
  unfolding rowwise_def
proof
  fix cs
  from assms(1) obtain cs1 h1 where h1: "keeps_session h1"
    and T: "\<And>rs. T \<lparr> columns = cs, rows = rs \<rparr> = \<lparr> columns = cs1, rows = map h1 rs \<rparr>"
    unfolding rowwise_def by blast
  from assms(2) obtain cs2 h2 where h2: "keeps_session h2"
    and U: "\<And>rs. U \<lparr> columns = cs1, rows = rs \<rparr> = \<lparr> columns = cs2, rows = map h2 rs \<rparr>"
    unfolding rowwise_def by blast
  have "keeps_session (h2 \<circ> h1)"
    using h1 h2 by (simp add: keeps_session_def)
  moreover have "\<forall>rs. U (T \<lparr> columns = cs, rows = rs \<rparr>)
      = \<lparr> columns = cs2, rows = map (h2 \<circ> h1) rs \<rparr>"
    by (simp add: T U)
  ultimately show "\<exists>cs' h. keeps_session h \<and>
      (\<forall>rs. U (T \<lparr> columns = cs, rows = rs \<rparr>) = \<lparr> columns = cs', rows = map h rs \<rparr>)"
    by blast
qed

lemma cell_of_new_cell:
  "cell_of (r\<lparr>cells := (c, v) # cells r\<rparr>) k = (if k = c then v else cell_of r k)"
  by (simp add: cell_of_def)

lemma rowwise_from_context:
  assumes "col \<noteq> ''session_id''"
  shows "rowwise (from_context col)"
  unfolding rowwise_def
proof
  fix cs
  show "\<exists>cs' h. keeps_session h \<and>
      (\<forall>rs. from_context col \<lparr> columns = cs, rows = rs \<rparr> = \<lparr> columns = cs', rows = map h rs \<rparr>)"
  proof (cases "col \<notin> set cs \<and> (''context.'' @ col) \<in> set cs")
    case True
    let ?h = "\<lambda>r. r\<lparr>cells := (col, cell_of r (''context.'' @ col)) # cells r\<rparr>"
    have "keeps_session ?h"
      using assms by (simp add: keeps_session_def cell_of_new_cell)
    moreover have "\<forall>rs. from_context col \<lparr> columns = cs, rows = rs \<rparr>
        = \<lparr> columns = cs @ [col], rows = map ?h rs \<rparr>"
      using True by (simp add: from_context_def set_col_def)
    ultimately show ?thesis by blast
  next
    case False
    have "keeps_session (\<lambda>r. r)" by (simp add: keeps_session_def)
    moreover have "\<forall>rs. from_context col \<lparr> columns = cs, rows = rs \<rparr>
        = \<lparr> columns = cs, rows = map (\<lambda>r. r) rs \<rparr>"
      using False by (auto simp: from_context_def)
    ultimately show ?thesis by blast
  qed
qed

lemma rowwise_fold_from_context:
  assumes "''session_id'' \<notin> set cols"
  shows "rowwise (fold from_context cols)"
  using assms
proof (induction cols)
  case Nil
  then show ?case using rowwise_id by simp
next
  case (Cons c cols)
  then have "rowwise (from_context c)" "rowwise (fold from_context cols)"
    by (auto intro: rowwise_from_context)
  then have "rowwise (\<lambda>df. fold from_context cols (from_context c df))"
    by (rule rowwise_comp)
  then show ?case by (simp add: comp_def)
qed

lemma rowwise_normalize_fields: "rowwise normalize_fields"
proof -
  have "rowwise (fold from_context
      [''intentName'', ''queryText'', ''protocolo'', ''prioridade'', ''uf'', ''channel''])"
    by (rule rowwise_fold_from_context) simp
  then show ?thesis
    by (simp add: normalize_fields_def [abs_def] comp_def)
qed

lemma frame_eq: "(df :: log_frame) = \<lparr> columns = columns df, rows = rows df \<rparr>"
  by (cases df) simp

text \<open>
  With a winning candidate \<open>w\<close>, the prepared frame has columns that depend on the columns
  of the input only, and each of its rows is the image of an input row, with the
  timestamp of that row and its cell of column \<open>w\<close> as session identifier.
\<close>

lemma prepared_with_session_col:
  "\<exists>cs' k. (\<forall>r. timestamp (k r) = timestamp r \<and> cell_of (k r) ''session_id'' = cell_of r w) \<and>
     (\<forall>df. columns df = cs \<and> find_session_col df = Some w \<longrightarrow>
        normalize_fields (assign_session_id df) = \<lparr> columns = cs', rows = map k (rows df) \<rparr>)"
proof -
  let ?cs1 = "if ''session_id'' \<in> set cs then cs else cs @ [''session_id'']"
  let ?g = "\<lambda>r. r\<lparr>cells := (''session_id'', cell_of r w) # cells r\<rparr>"
  from rowwise_normalize_fields obtain cs' h where h: "keeps_session h"
    and N: "\<And>rs. normalize_fields \<lparr> columns = ?cs1, rows = rs \<rparr> = \<lparr> columns = cs', rows = map h rs \<rparr>"
    unfolding rowwise_def by blast
  have k: "\<forall>r. timestamp ((h \<circ> ?g) r) = timestamp r \<and>
      cell_of ((h \<circ> ?g) r) ''session_id'' = cell_of r w"
    using h by (simp add: keeps_session_def cell_of_new_cell)
  have "normalize_fields (assign_session_id df) = \<lparr> columns = cs', rows = map (h \<circ> ?g) (rows df) \<rparr>"
    if "columns df = cs" "find_session_col df = Some w" for df
  proof -
    have "assign_session_id df = \<lparr> columns = ?cs1, rows = map ?g (rows df) \<rparr>"
      using that by (simp add: assign_session_id_def set_col_def)
    then show ?thesis by (simp add: N)
  qed
  with k show ?thesis by blast
qed

lemma find_session_col_cong:
  assumes "columns a = columns b" and "set (rows a) = set (rows b)"
  shows "find_session_col a = find_session_col b"
  using assms by (simp add: find_session_col_def list_ex_iff)


subsection \<open>Frames without nested columns\<close>

text \<open>
  The small frames below have the columns \<open>plain_columns\<close>; the candidate found is
  \<^verbatim>\<open>session_id\<close> itself and no field is copied from a nested name.
\<close>

definition plain_columns :: "string list" where
  "plain_columns = [''session_id'', ''timestamp'', ''message'', ''component'', ''prioridade'']"

definition with_session :: "log_row \<Rightarrow> log_row" where
  "with_session r = r\<lparr>cells := (''session_id'', cell_of r ''session_id'') # cells r\<rparr>"

lemma plain_sessions:
  assumes "find_session_col \<lparr> columns = plain_columns, rows = rs \<rparr> = Some ''session_id''"
  shows "transform_logs_to_sessions \<lparr> columns = plain_columns, rows = rs \<rparr>
     = summarize_groups plain_columns (groupby_session (sort_values (map with_session rs)))"
proof -
  have a: "assign_session_id \<lparr> columns = plain_columns, rows = rs \<rparr>
      = \<lparr> columns = plain_columns, rows = map with_session rs \<rparr>"
    unfolding assign_session_id_def assms option.case
    by (simp add: set_col_def plain_columns_def with_session_def)
  have n: "normalize_fields \<lparr> columns = plain_columns, rows = xs \<rparr>
      = \<lparr> columns = plain_columns, rows = xs \<rparr>" for xs
    by (simp add: normalize_fields_def from_context_def plain_columns_def)
  have t: "''timestamp'' \<in> set plain_columns"
    by (simp add: plain_columns_def)
  show ?thesis
    unfolding transform_logs_to_sessions_def a n by (simp add: Let_def t)
qed


subsection \<open>The order of the input rows\<close>

text \<open>
  C9, as the code has it. Two frames with the same columns and the same rows in a
  different order give the same result (the same sessions in the same order with the
  same fields, or the same exception) when a candidate column identifies the sessions
  and no two different entries of one session have the same timestamp. An entry belongs
  to a session when its cell of the winning column is a string other than the empty one
  and the text \<^verbatim>\<open>None\<close>; entries without such a key are dropped and may share timestamps.
  The sort by timestamp does not order entries with equal timestamps, and the
  identifiers derived from row positions follow the order of the input; the statement
  leaves both cases out.
\<close>

theorem C9_row_order:
  assumes cols: "columns a = columns b"
    and perm: "mset (rows a) = mset (rows b)"
    and col: "find_session_col a = Some w"
    and ties: "\<forall>r \<in> set (rows a). \<forall>r' \<in> set (rows a).
        names_session (cell_of r w) \<and> cell_of r w = cell_of r' w \<and> timestamp r = timestamp r'
          \<longrightarrow> r = r'"
  shows "transform_logs_to_sessions a = transform_logs_to_sessions b"
proof -
  have sets: "set (rows a) = set (rows b)" using perm by (metis mset_eq_setD)
  have colb: "find_session_col b = Some w"
    using find_session_col_cong [OF cols sets] col by simp
  from prepared_with_session_col [of w "columns a"] obtain cs' k where
    k: "\<And>r. timestamp (k r) = timestamp r" "\<And>r. cell_of (k r) ''session_id'' = cell_of r w"
    and prep: "\<And>df. columns df = columns a \<Longrightarrow> find_session_col df = Some w \<Longrightarrow>
        normalize_fields (assign_session_id df) = \<lparr> columns = cs', rows = map k (rows df) \<rparr>"
    by blast
  have pa: "normalize_fields (assign_session_id a) = \<lparr> columns = cs', rows = map k (rows a) \<rparr>"
    using prep [of a] col by simp
  have pb: "normalize_fields (assign_session_id b) = \<lparr> columns = cs', rows = map k (rows b) \<rparr>"
    using prep [of b] cols colb by simp
  have "summarize_groups cs' (groupby_session (sort_values (map k (rows a))))
      = summarize_groups cs' (groupby_session (sort_values (map k (rows b))))"
  proof (rule summarize_sorted_cong)
    show "mset (map k (rows a)) = mset (map k (rows b))"
      using perm by simp
    show "\<forall>x \<in> set (map k (rows a)). \<forall>y \<in> set (map k (rows a)).
        names_session (cell_of x ''session_id'') \<and>
        cell_of x ''session_id'' = cell_of y ''session_id'' \<and> timestamp x = timestamp y
          \<longrightarrow> x = y"
      using ties by (auto simp: k)
  qed
  then show ?thesis
    by (simp add: transform_logs_to_sessions_def pa pb Let_def)
qed

text \<open>
  Two entries of session \<^verbatim>\<open>s1\<close> with the same timestamp and different priorities: the
  priority of the session is the one of the entry that comes first in the input, so the
  two orders of the same entries give different records.
\<close>

definition alta_row :: log_row where
  "alta_row = \<lparr> timestamp = Some 0,
      cells = [(''session_id'', Str ''s1''), (''message'', Str ''a''), (''prioridade'', Str ''Alta'')] \<rparr>"

definition baixa_row :: log_row where
  "baixa_row = \<lparr> timestamp = Some 0,
      cells = [(''session_id'', Str ''s1''), (''message'', Str ''b''), (''prioridade'', Str ''Baixa'')] \<rparr>"

definition tie_a :: log_frame where
  "tie_a = \<lparr> columns = plain_columns, rows = [alta_row, baixa_row] \<rparr>"

definition tie_b :: log_frame where
  "tie_b = \<lparr> columns = plain_columns, rows = [baixa_row, alta_row] \<rparr>"

definition tie_session :: "string \<Rightarrow> conversation" where
  "tie_session p =
     \<lparr> conversation_id = ''s1'', channel = ''web'', uf = Some ''sp'', priority = Some p,
       created_at = Some 0, completed_at = None, notification_sent_at = None,
       fallback = False, fallback_phrase = None, slots_filled = 6, slots_total = 6,
       escalated = False, abandoned = True, intent_final = ''AbrirChamadoSuporte'',
       protocol = ''MONGO-s1'' \<rparr>"

lemma short_messages [simp]:
  "\<not> is_completion (Str ''a'')" "\<not> is_completion (Str ''b'')"
  "\<not> is_fallback_message (Str ''a'')" "\<not> is_fallback_message (Str ''b'')"
  by (simp_all add: is_completion_def is_fallback_message_def contains_ci_def fold_code_def
      concluido_acute_def)

lemma tie_session_col:
  "find_session_col \<lparr> columns = plain_columns, rows = [alta_row, baixa_row] \<rparr> = Some ''session_id''"
  "find_session_col \<lparr> columns = plain_columns, rows = [baixa_row, alta_row] \<rparr> = Some ''session_id''"
  by (simp_all add: find_session_col_def plain_columns_def alta_row_def baixa_row_def
      possible_session_cols_def cell_of_def)

lemma tie_a_sessions: "transform_logs_to_sessions tie_a = Inr [tie_session ''Alta'']"
  unfolding tie_a_def plain_sessions [OF tie_session_col(1)]
  by (simp add: sort_values_def groupby_session_def with_session_def alta_row_def baixa_row_def
      cell_of_def summarize_session_def Let_def plain_columns_def min_ts_def first_value_def
      or_default_def tie_session_def)

lemma tie_b_sessions: "transform_logs_to_sessions tie_b = Inr [tie_session ''Baixa'']"
  unfolding tie_b_def plain_sessions [OF tie_session_col(2)]
  by (simp add: sort_values_def groupby_session_def with_session_def alta_row_def baixa_row_def
      cell_of_def summarize_session_def Let_def plain_columns_def min_ts_def first_value_def
      or_default_def tie_session_def)

theorem C9_counterexample:
  "columns tie_a = columns tie_b \<and> mset (rows tie_a) = mset (rows tie_b) \<and>
   transform_logs_to_sessions tie_a = Inr [tie_session ''Alta''] \<and>
   transform_logs_to_sessions tie_b = Inr [tie_session ''Baixa''] \<and>
   tie_session ''Alta'' \<noteq> tie_session ''Baixa''"
  by (simp add: tie_a_sessions tie_b_sessions) (simp add: tie_a_def tie_b_def tie_session_def)


text \<open>
  An instance of C9: session \<^verbatim>\<open>s1\<close> with two entries at different times and two entries
  without a session key that share a timestamp, in two orders.
\<close>

definition later_row :: log_row where
  "later_row = \<lparr> timestamp = Some (2 * minute),
      cells = [(''session_id'', Str ''s1''), (''message'', Str ''b''), (''prioridade'', Str ''Baixa'')] \<rparr>"

definition keyless_row :: "string \<Rightarrow> log_row" where
  "keyless_row m = \<lparr> timestamp = Some minute, cells = [(''message'', Str m)] \<rparr>"

definition keyless_a :: log_frame where
  "keyless_a = \<lparr> columns = plain_columns,
      rows = [alta_row, later_row, keyless_row ''a'', keyless_row ''b''] \<rparr>"

definition keyless_b :: log_frame where
  "keyless_b = \<lparr> columns = plain_columns,
      rows = [keyless_row ''b'', keyless_row ''a'', later_row, alta_row] \<rparr>"

lemma keyless_session_col:
  "find_session_col \<lparr> columns = plain_columns,
      rows = [alta_row, later_row, keyless_row ''a'', keyless_row ''b''] \<rparr> = Some ''session_id''"
  by (simp add: find_session_col_def plain_columns_def alta_row_def possible_session_cols_def
      cell_of_def)

lemma keyless_a_sessions: "transform_logs_to_sessions keyless_a = Inr [tie_session ''Alta'']"
  unfolding keyless_a_def plain_sessions [OF keyless_session_col]
  by (simp add: sort_values_def groupby_session_def with_session_def alta_row_def later_row_def
      keyless_row_def cell_of_def summarize_session_def Let_def plain_columns_def min_ts_def
      first_value_def or_default_def tie_session_def minute_def)

theorem C9_row_order_witness:
  "columns keyless_a = columns keyless_b \<and>
   mset (rows keyless_a) = mset (rows keyless_b) \<and>
   rows keyless_a \<noteq> rows keyless_b \<and>
   find_session_col keyless_a = Some ''session_id'' \<and>
   list_all (\<lambda>r. names_session (cell_of r ''session_id'') = (r = alta_row \<or> r = later_row))
     (rows keyless_a) \<and>
   timestamp alta_row \<noteq> timestamp later_row \<and>
   timestamp (keyless_row ''a'') = timestamp (keyless_row ''b'') \<and>
   keyless_row ''a'' \<noteq> keyless_row ''b'' \<and>
   transform_logs_to_sessions keyless_a = Inr [tie_session ''Alta''] \<and>
   transform_logs_to_sessions keyless_b = Inr [tie_session ''Alta'']"
proof -
  have cols: "columns keyless_a = columns keyless_b"
    by (simp add: keyless_a_def keyless_b_def)
  have perm: "mset (rows keyless_a) = mset (rows keyless_b)"
    by (simp add: keyless_a_def keyless_b_def)
  have col: "find_session_col keyless_a = Some ''session_id''"
    unfolding keyless_a_def by (rule keyless_session_col)
  have only: "list_all (\<lambda>r. names_session (cell_of r ''session_id'') = (r = alta_row \<or> r = later_row))
      (rows keyless_a)"
    by (simp add: keyless_a_def alta_row_def later_row_def keyless_row_def cell_of_def)
  have ne: "rows keyless_a \<noteq> rows keyless_b" "timestamp alta_row \<noteq> timestamp later_row"
    "timestamp (keyless_row ''a'') = timestamp (keyless_row ''b'')"
    "keyless_row ''a'' \<noteq> keyless_row ''b''"
    by (simp_all add: keyless_a_def keyless_b_def alta_row_def later_row_def keyless_row_def
        minute_def)
  have ties: "\<forall>r \<in> set (rows keyless_a). \<forall>r' \<in> set (rows keyless_a).
      names_session (cell_of r ''session_id'') \<and>
      cell_of r ''session_id'' = cell_of r' ''session_id'' \<and> timestamp r = timestamp r'
        \<longrightarrow> r = r'"
    by (simp add: keyless_a_def alta_row_def later_row_def keyless_row_def cell_of_def
        minute_def)
  from C9_row_order [OF cols perm col ties] cols perm col only ne
  show ?thesis
    by (simp add: keyless_a_sessions)
qed

section \<open>The session identifier\<close>

subsection \<open>Identifiers derived from row positions\<close>

definition digits_value :: "string \<Rightarrow> nat" where
  "digits_value s = foldl (\<lambda>a c. 10 * a + (of_char c - 48)) 0 s"

lemma digit_char_code:
  assumes "d < 10"
  shows "of_char (digit_char d) = 48 + d" and "digit_char d \<noteq> CHR ''N''"
proof -
  from assms have "d \<in> {0, 1, 2, 3, 4, 5, 6, 7, 8, 9}" by auto
  then show "of_char (digit_char d) = 48 + d" and "digit_char d \<noteq> CHR ''N''"
    by (auto simp: digit_char_def)
qed

lemma digits_value_str_nat: "digits_value (str_nat n) = n"
proof (induction n rule: str_nat.induct)
  case (1 n)
  show ?case
  proof (cases "n < 10")
    case True
    then show ?thesis
      by (subst str_nat.simps) (simp add: digits_value_def digit_char_code)
  next
    case False
    have "n mod 10 < 10" by simp
    then have "of_char (digit_char (n mod 10)) = 48 + n mod 10"
      by (rule digit_char_code)
    with False 1 show ?thesis
      by (subst str_nat.simps) (simp add: digits_value_def)
  qed
qed

lemma inj_str_nat: "inj str_nat"
  by (rule inj_on_inverseI [of _ digits_value]) (rule digits_value_str_nat)

lemma str_nat_not_skipped: "str_nat n \<noteq> [] \<and> str_nat n \<noteq> ''None''"
proof (induction n rule: str_nat.induct)
  case (1 n)
  show ?case
  proof (cases "n < 10")
    case True
    then show ?thesis
      using digit_char_code(2) [of n] by (subst (1 2) str_nat.simps) simp
  next
    case False
    have "digit_char (n mod 10) \<noteq> CHR ''e''"
      using digit_char_code(1) [of "n mod 10"] by (auto simp: )
    with False show ?thesis
      by (subst (1 2) str_nat.simps) (auto simp: append_eq_Cons_conv)
  qed
qed


lemma dropna_Str: "dropna (map (\<lambda>x. Str (f x)) xs) = map f xs"
  by (induction xs) simp_all

lemma map_fst_groupby:
  "map fst (groupby_session rs)
     = sort (remdups (dropna (map (\<lambda>r. cell_of r ''session_id'') rs)))"
  by (simp add: groupby_session_def comp_def)

lemma map_fst_enumerate_with:
  "map (\<lambda>p. f (fst p)) (enumerate n xs) = map f [n..<n + length xs]"
proof -
  have "map f [n..<n + length xs] = map f (map fst (enumerate n xs))"
    by (simp only: map_fst_enumerate)
  also have "\<dots> = map (\<lambda>p. f (fst p)) (enumerate n xs)"
    by (simp only: map_map comp_def)
  finally show ?thesis by (rule sym)
qed

lemma indexed_session_cells:
  "map (\<lambda>r. cell_of r ''session_id'') (rows (with_index_session df))
     = map (\<lambda>i. Str (str_nat i)) [0..<length (rows df)]"
proof -
  have "map (\<lambda>r. cell_of r ''session_id'') (rows (with_index_session df))
      = map (\<lambda>p. Str (str_nat (fst p))) (enumerate 0 (rows df))"
    by (simp add: with_index_session_def cell_of_new_cell split_beta)
  also have "\<dots> = map (\<lambda>i. Str (str_nat i)) [0..<length (rows df)]"
    using map_fst_enumerate_with [of "\<lambda>i. Str (str_nat i)" 0 "rows df"] by simp
  finally show ?thesis .
qed

lemma prepared_session_cells:
  "map (\<lambda>r. cell_of r ''session_id'') (rows (normalize_fields df))
     = map (\<lambda>r. cell_of r ''session_id'') (rows df)"
proof -
  from rowwise_normalize_fields obtain cs' h where h: "keeps_session h"
    and N: "\<And>rs. normalize_fields \<lparr> columns = columns df, rows = rs \<rparr>
        = \<lparr> columns = cs', rows = map h rs \<rparr>"
    unfolding rowwise_def by blast
  have "normalize_fields df = \<lparr> columns = cs', rows = map h (rows df) \<rparr>"
    using N [of "rows df"] frame_eq [of df] by simp
  with h show ?thesis
    by (simp add: keeps_session_def comp_def)
qed

lemma session_ids_of_result:
  assumes "transform_logs_to_sessions df = Inr ss"
  shows "map conversation_id ss =
     filter (\<lambda>k. k \<noteq> [] \<and> k \<noteq> ''None'')
       (sort (remdups (dropna (map (\<lambda>r. cell_of r ''session_id'')
          (rows (assign_session_id df))))))"
proof -
  let ?df = "normalize_fields (assign_session_id df)"
  from assms have "summarize_groups (columns ?df) (groupby_session (sort_values (rows ?df))) = Inr ss"
    by (simp add: transform_logs_to_sessions_def Let_def split: if_splits)
  from summarize_groups_ids [OF this] show ?thesis
    by (simp only: map_fst_groupby session_keys_sorted prepared_session_cells)
qed

text \<open>
  C3, as the code has it. The aggregator scans the fixed list of candidate names and
  takes, for the whole batch, the first candidate that is a column with a value that is
  not null in some row: no candidate before it in the list is such a column. The sessions of the result are then the distinct values of that
  column, in ascending order, without the empty string and the text \<^verbatim>\<open>None\<close>: a row
  without a value in the winning column belongs to no session and yields no record.
  Identifiers derived from row positions are used only when no candidate qualifies, and
  then every row yields its own record, keyed by the decimal text of its position.
  (Stated for the calls that return; C2 covers when they do.)
\<close>

theorem C3_session_identifier:
  assumes "transform_logs_to_sessions df = Inr ss"
  shows "case find_session_col df of
       Some col \<Rightarrow>
         (\<exists>i < length possible_session_cols.
            possible_session_cols ! i = col \<and>
            (\<forall>j < i. \<not> (possible_session_cols ! j \<in> set (columns df) \<and>
                list_ex (\<lambda>r. notna (cell_of r (possible_session_cols ! j))) (rows df)))) \<and>
         col \<in> set possible_session_cols \<and> col \<in> set (columns df) \<and>
         list_ex (\<lambda>r. notna (cell_of r col)) (rows df) \<and>
         map conversation_id ss =
           filter (\<lambda>k. k \<noteq> [] \<and> k \<noteq> ''None'')
             (sort (remdups (dropna (map (\<lambda>r. cell_of r col) (rows df)))))
     | None \<Rightarrow>
         (\<forall>col \<in> set possible_session_cols.
            \<not> (col \<in> set (columns df) \<and> list_ex (\<lambda>r. notna (cell_of r col)) (rows df))) \<and>
         map conversation_id ss = sort (map str_nat [0..<length (rows df)])"
proof (cases "find_session_col df")
  case None
  then have none: "\<forall>col \<in> set possible_session_cols.
      \<not> (col \<in> set (columns df) \<and> list_ex (\<lambda>r. notna (cell_of r col)) (rows df))"
    by (simp add: find_session_col_def find_None_iff)
  have a: "assign_session_id df = with_index_session df"
    using None by (simp add: assign_session_id_def)
  have d: "distinct (map str_nat [0..<length (rows df)])"
    using inj_str_nat by (simp add: distinct_map inj_on_def inj_def)
  have "map conversation_id ss =
      filter (\<lambda>k. k \<noteq> [] \<and> k \<noteq> ''None'') (sort (remdups (map str_nat [0..<length (rows df)])))"
    using session_ids_of_result [OF assms]
    by (simp only: a indexed_session_cells dropna_Str)
  also have "\<dots> = sort (map str_nat [0..<length (rows df)])"
    using d by (simp add: distinct_remdups_id str_nat_not_skipped filter_id_conv)
  finally show ?thesis
    using None none by simp
next
  case (Some col)
  then have first: "\<exists>i < length possible_session_cols.
      possible_session_cols ! i = col \<and>
      (\<forall>j < i. \<not> (possible_session_cols ! j \<in> set (columns df) \<and>
          list_ex (\<lambda>r. notna (cell_of r (possible_session_cols ! j))) (rows df)))"
    unfolding find_session_col_def find_Some_iff by blast
  from Some have found: "col \<in> set possible_session_cols" "col \<in> set (columns df)"
    "list_ex (\<lambda>r. notna (cell_of r col)) (rows df)"
    by (auto simp: find_session_col_def find_Some_iff)
  have "map (\<lambda>r. cell_of r ''session_id'') (rows (assign_session_id df))
      = map (\<lambda>r. cell_of r col) (rows df)"
    using Some by (simp add: assign_session_id_def set_col_def cell_of_new_cell comp_def)
  with session_ids_of_result [OF assms] Some found first show ?thesis
    by simp
qed



text \<open>
  Two entries, the second without a value in the winning column \<^verbatim>\<open>session_id\<close>: the result
  has the one record of session \<^verbatim>\<open>s1\<close> and no record keyed by the position of the second
  row, which is dropped.
\<close>

definition keyed_row :: log_row where
  "keyed_row = \<lparr> timestamp = Some 0,
      cells = [(''session_id'', Str ''s1''), (''message'', Str ''a'')] \<rparr>"

definition unkeyed_row :: log_row where
  "unkeyed_row = \<lparr> timestamp = Some minute, cells = [(''message'', Str ''b'')] \<rparr>"

definition gap_frame :: log_frame where
  "gap_frame = \<lparr> columns = plain_columns, rows = [keyed_row, unkeyed_row] \<rparr>"

definition position_session :: "string \<Rightarrow> datetime \<Rightarrow> conversation" where
  "position_session k t =
     \<lparr> conversation_id = k, channel = ''web'', uf = Some ''sp'', priority = Some Media,
       created_at = Some t, completed_at = None, notification_sent_at = None,
       fallback = False, fallback_phrase = None, slots_filled = 6, slots_total = 6,
       escalated = False, abandoned = True, intent_final = ''AbrirChamadoSuporte'',
       protocol = ''MONGO-'' @ k \<rparr>"

lemma gap_session_col:
  "find_session_col \<lparr> columns = plain_columns, rows = [keyed_row, unkeyed_row] \<rparr>
     = Some ''session_id''"
  by (simp add: find_session_col_def plain_columns_def keyed_row_def unkeyed_row_def
      possible_session_cols_def cell_of_def)

lemma gap_sessions: "transform_logs_to_sessions gap_frame = Inr [position_session ''s1'' 0]"
  unfolding gap_frame_def plain_sessions [OF gap_session_col]
  by (simp add: sort_values_def groupby_session_def with_session_def keyed_row_def
      unkeyed_row_def cell_of_def summarize_session_def Let_def plain_columns_def min_ts_def
      first_value_def or_default_def position_session_def minute_def)

theorem C3_counterexample:
  "find_session_col gap_frame = Some ''session_id'' \<and> length (rows gap_frame) = 2 \<and>
   cell_of (rows gap_frame ! 1) ''session_id'' = NaN \<and>
   transform_logs_to_sessions gap_frame = Inr [position_session ''s1'' 0]"
  using gap_session_col
  by (simp add: gap_sessions) (simp add: gap_frame_def unkeyed_row_def cell_of_def)


text \<open>
  Three instances of C3: the frame above; a frame without any candidate column, whose two
  rows become the sessions \<^verbatim>\<open>0\<close> and \<^verbatim>\<open>1\<close>; and a frame in which the candidates
  \<^verbatim>\<open>session_id\<close> and \<^verbatim>\<open>protocolo\<close> both have values, where \<^verbatim>\<open>session_id\<close>, the earlier one
  in the list, names the session.
\<close>

definition unkeyed_frame :: log_frame where
  "unkeyed_frame =
     \<lparr> columns = [''timestamp'', ''message'', ''component''],
       rows = [unkeyed_row, \<lparr> timestamp = Some 0, cells = [(''message'', Str ''a'')] \<rparr>] \<rparr>"

lemma unkeyed_session_col: "find_session_col unkeyed_frame = None"
  by (simp add: find_session_col_def unkeyed_frame_def possible_session_cols_def)

lemma position_strings: "str_nat 0 = ''0''" "str_nat (Suc 0) = ''1''"
  by (simp_all add: str_nat.simps digit_char_def)

lemma unkeyed_indexed:
  "normalize_fields (assign_session_id unkeyed_frame) =
     \<lparr> columns = [''timestamp'', ''message'', ''component'', ''session_id''],
       rows = [\<lparr> timestamp = Some minute,
                 cells = [(''session_id'', Str ''0''), (''message'', Str ''b'')] \<rparr>,
               \<lparr> timestamp = Some 0,
                 cells = [(''session_id'', Str ''1''), (''message'', Str ''a'')] \<rparr>] \<rparr>"
  unfolding assign_session_id_def unkeyed_session_col option.case
  by (simp add: with_index_session_def unkeyed_frame_def unkeyed_row_def position_strings
      normalize_fields_def from_context_def)

lemma unkeyed_sessions:
  "transform_logs_to_sessions unkeyed_frame
     = Inr [position_session ''0'' minute, position_session ''1'' 0]"
  unfolding transform_logs_to_sessions_def unkeyed_indexed
  by (simp add: Let_def sort_values_def groupby_session_def cell_of_def summarize_session_def
      min_ts_def first_value_def or_default_def position_session_def minute_def)

definition two_keys_frame :: log_frame where
  "two_keys_frame =
     \<lparr> columns = [''protocolo'', ''session_id'', ''timestamp'', ''message'', ''component''],
       rows = [\<lparr> timestamp = Some 0,
                 cells = [(''protocolo'', Str ''P-9''), (''session_id'', Str ''s1''),
                          (''message'', Str ''a'')] \<rparr>] \<rparr>"

lemma two_keys_session_col: "find_session_col two_keys_frame = Some ''session_id''"
  by (simp add: find_session_col_def two_keys_frame_def possible_session_cols_def cell_of_def)

lemma two_keys_prepared:
  "normalize_fields (assign_session_id two_keys_frame) =
     \<lparr> columns = [''protocolo'', ''session_id'', ''timestamp'', ''message'', ''component''],
       rows = [\<lparr> timestamp = Some 0,
                 cells = [(''session_id'', Str ''s1''), (''protocolo'', Str ''P-9''),
                          (''session_id'', Str ''s1''), (''message'', Str ''a'')] \<rparr>] \<rparr>"
  unfolding assign_session_id_def two_keys_session_col option.case
  by (simp add: set_col_def two_keys_frame_def cell_of_def normalize_fields_def
      from_context_def)

lemma two_keys_sessions:
  "transform_logs_to_sessions two_keys_frame
     = Inr [(position_session ''s1'' 0)\<lparr>protocol := ''P-9''\<rparr>]"
  unfolding transform_logs_to_sessions_def two_keys_prepared
  by (simp add: Let_def sort_values_def groupby_session_def cell_of_def summarize_session_def
      min_ts_def first_value_def or_default_def position_session_def)

theorem C3_session_identifier_witness:
  "transform_logs_to_sessions gap_frame = Inr [position_session ''s1'' 0] \<and>
   find_session_col gap_frame = Some ''session_id'' \<and>
   map conversation_id [position_session ''s1'' 0] = [''s1''] \<and>
   transform_logs_to_sessions unkeyed_frame
     = Inr [position_session ''0'' minute, position_session ''1'' 0] \<and>
   find_session_col unkeyed_frame = None \<and>
   map conversation_id [position_session ''0'' minute, position_session ''1'' 0]
     = sort (map str_nat [0..<length (rows unkeyed_frame)]) \<and>
   transform_logs_to_sessions two_keys_frame
     = Inr [(position_session ''s1'' 0)\<lparr>protocol := ''P-9''\<rparr>] \<and>
   find_session_col two_keys_frame = Some ''session_id'' \<and>
   ''protocolo'' \<in> set (columns two_keys_frame) \<and>
   list_ex (\<lambda>r. notna (cell_of r ''protocolo'')) (rows two_keys_frame) \<and>
   map conversation_id [(position_session ''s1'' 0)\<lparr>protocol := ''P-9''\<rparr>] = [''s1'']"
  using C3_session_identifier [OF gap_sessions] C3_session_identifier [OF unkeyed_sessions]
    C3_session_identifier [OF two_keys_sessions] gap_session_col
  by (simp add: gap_sessions unkeyed_sessions unkeyed_session_col two_keys_sessions
      two_keys_session_col)
    (simp add: gap_frame_def position_session_def two_keys_frame_def cell_of_def)

end
